theory Spec2Isabelle
  imports Complex_Main "HOL-Library.Sublist"
begin

section \<open>Data model of the dashboard script (public/js/app.js)\<close>

text \<open>
  The script is event-handler glue over three stores: the DOM, \<open>localStorage\<close> and
  the network. Each handler is embedded as a function from the page state to the page
  state. What the environment answers (the identity provider's token, the response of a
  \<open>fetch\<close>, the result of a \<open>FileReader\<close>) is an argument of the handler, and
  every request the handler issues is appended to the field \<open>requests\<close>.

  The fields of a response are typed here by what the server sends in them: counts and
  limits are JSON numbers, keys and plan names are JSON strings, and a field that the
  response does not have is \<open>None\<close>. A field of another JSON type (a limit sent as the
  string \<open>"0"\<close>, a field sent as \<open>null\<close>) is outside this typing. JSON numbers are
  mathematical reals (no rounding); the values that only arithmetic produces, \<open>NaN\<close>
  and the infinities, are added where the script computes (\<open>js_number\<close>).
\<close>

subsection \<open>Exceptions and rejected promises\<close>

datatype js_error =
    Rejected string   \<comment> \<open>a promise rejected by the environment, with its message\<close>
  | SyntaxError       \<comment> \<open>\<open>response.json()\<close> on a body that is not JSON\<close>
  | TypeError         \<comment> \<open>a property read on \<open>null\<close>\<close>

subsection \<open>Text shown in the page\<close>

datatype dom_text =
    Lit string            \<comment> \<open>a string literal or a string taken from a response\<close>
  | LocaleNum real        \<comment> \<open>\<open>n.toLocaleString()\<close>, whose digits depend on the locale\<close>
  | MessageOf js_error    \<comment> \<open>\<open>e.message\<close>\<close>
  | MemberString string   \<comment> \<open>the string form of the member of that name that every object inherits\<close>

subsection \<open>Responses\<close>

text \<open>The fields of a JSON response body that the script reads.\<close>

record json_obj =
  masked_key :: "string option"
  key :: "string option"
  plan :: "string option"
  requests_this_month :: "real option"
  limit :: "real option"
  checkout_url :: "string option"
  url :: "string option"
  detail :: "string option"

datatype json_value = JsonNull | JsonObject json_obj

text \<open>
  A response: its status and what \<open>response.json()\<close> parses, \<open>None\<close> when the body is
  not JSON. A JSON number, string or array has none of the fields above and behaves as
  the object without fields.
\<close>

record response =
  status :: nat
  body :: "json_value option"

text \<open>\<open>response.ok\<close> is defined by the Fetch standard from the status.\<close>

definition ok :: "response \<Rightarrow> bool" where
  "ok r = (200 \<le> status r \<and> status r \<le> 299)"

definition json :: "response \<Rightarrow> js_error + json_value" where
  "json r = (case body r of None \<Rightarrow> Inl SyntaxError | Some v \<Rightarrow> Inr v)"

text \<open>The outcome of \<open>await fetch(...)\<close>: \<open>Inl\<close> when the promise rejects.\<close>

type_synonym fetch_result = "js_error + response"

subsection \<open>Truthiness\<close>

definition truthy_str :: "string option \<Rightarrow> bool" where
  "truthy_str v = (case v of None \<Rightarrow> False | Some s \<Rightarrow> s \<noteq> [])"


text \<open>\<open>a || b\<close> with a string default and with a number default.\<close>

definition or_str :: "string option \<Rightarrow> string \<Rightarrow> string" where
  "or_str v dflt = (case v of None \<Rightarrow> dflt | Some s \<Rightarrow> if s = [] then dflt else s)"

definition or_num :: "real option \<Rightarrow> real \<Rightarrow> real" where
  "or_num v dflt = (case v of None \<Rightarrow> dflt | Some n \<Rightarrow> if n = 0 then dflt else n)"

text \<open>
  A string field written into a DOM string attribute or into local storage: a field that
  the response does not have reads as \<open>undefined\<close>, which is spelled out.
\<close>

definition to_dom_string :: "string option \<Rightarrow> string" where
  "to_dom_string v = (case v of None \<Rightarrow> ''undefined'' | Some s \<Rightarrow> s)"

subsection \<open>Requests\<close>

text \<open>The six calls of the script, with what each puts on the wire.\<close>

datatype request =
    GetKey string                      \<comment> \<open>GET /api/v1/key; bearer token\<close>
  | Signup string string string        \<comment> \<open>POST /api/v1/signup; bearer token, email, plan\<close>
  | RegenerateKey string               \<comment> \<open>POST /api/v1/regenerate-key; bearer token\<close>
  | CreateCheckout string string       \<comment> \<open>POST /api/v1/create-checkout?plan=; plan, bearer token\<close>
  | CreatePortal string                \<comment> \<open>POST /api/v1/create-portal; bearer token\<close>
  | Extract "nat list" "string option" string string
      \<comment> \<open>POST /api/v1/extract; X-API-Key, file_data, mime_type, doc_type\<close>

subsection \<open>The signed-in user and the chosen file\<close>

record user =
  email :: string
  getIdToken :: "js_error + string"   \<comment> \<open>what \<open>await user.getIdToken()\<close> yields\<close>

record js_file =
  file_size :: nat
  file_type :: string

subsection \<open>Plan cards\<close>

datatype onclick = OpenPortal | UpgradePlan string

datatype action =
    Current                          \<comment> \<open>the badge, no button\<close>
  | Downgrade onclick                \<comment> \<open>the button labelled Downgrade\<close>
  | Upgrade onclick "string list"    \<comment> \<open>the button labelled Upgrade, with its colour classes\<close>

text \<open>
  A card after rendering: its class list and the parts of its \<open>innerHTML\<close> that
  vary (heading, quota line, price, and the badge or button).
\<close>

record card =
  className :: "string list"
  heading :: string
  quota :: string
  price :: string
  act :: "action option"

subsection \<open>Toasts\<close>

record toast =
  toast_message :: dom_text
  toast_border :: string
  toast_text :: string

subsection \<open>The page\<close>

datatype button_html = ProcessingDots | BoltExtractData | StaticHtml

text \<open>
  The elements, storage entries and globals that the handlers read or write. An element
  that a handler dereferences without a check is a field; the plan cards, which
  \<open>updatePlanCards\<close> looks up and skips when absent, are a partial map from the tier
  name. \<open>toasts\<close> lists the toasts appended so far (their timed removal is not
  modelled), \<open>console\<close> what \<open>console.error\<close> received, \<open>requests\<close> the calls of
  \<open>fetch\<close> in the order they were issued.
\<close>

record page =
  apiKeyDisplay_value :: string
  apiKeyDisplay_classList :: "string list"
  copyApiKeyBtn_classList :: "string list"
  keyWarningMsg_classList :: "string list"
  requestCount :: dom_text
  requestsLimit :: dom_text
  usageBar_width :: real
  usageBar_classList :: "string list"
  manageSubBtn_classList :: "string list"
  planCard :: "string \<Rightarrow> card option"
  rotateModal_classList :: "string list"
  testApiKeyInput_value :: "nat list"
  docTypeInput_value :: string
  activeElement :: "string option"
  extractBtn_disabled :: bool
  extractBtn_innerHTML :: button_html
  extractBtn_classList :: "string list"
  processingIndicator_classList :: "string list"
  resultsArea_classList :: "string list"
  dropContent_classList :: "string list"
  previewImage_classList :: "string list"
  previewImage_src :: string
  previewImage_padding :: string
  toasts :: "toast list"
  console :: "js_error list"
  requests :: "request list"
  localStorage :: "string \<rightharpoonup> string"
  currentSelectedFile :: "js_file option"
  currentUser :: "user option"
  location_href :: "string option"
  reloaded :: bool

section \<open>The handlers\<close>

subsection \<open>DOM and language primitives\<close>

definition classList_add :: "string list \<Rightarrow> string list \<Rightarrow> string list" where
  "classList_add tokens cs = fold (\<lambda>t acc. if t \<in> set acc then acc else acc @ [t]) tokens cs"

definition classList_remove :: "string list \<Rightarrow> string list \<Rightarrow> string list" where
  "classList_remove tokens cs = filter (\<lambda>c. c \<notin> set tokens) cs"

definition hidden :: "string list \<Rightarrow> bool" where
  "hidden cs = (''hidden'' \<in> set cs)"

text \<open>A call of \<open>fetch\<close>: the request goes out, whatever comes back.\<close>

definition fetch :: "request \<Rightarrow> page \<Rightarrow> page" where
  "fetch r p = p\<lparr>requests := requests p @ [r]\<rparr>"

text \<open>
  The body of a \<open>try\<close> block ends in a page and, when it threw, the exception;
  \<open>catch\<close> runs the handler on the page as the exception left it.
\<close>

type_synonym outcome = "js_error option \<times> page"

definition catch :: "(js_error \<Rightarrow> page \<Rightarrow> page) \<Rightarrow> outcome \<Rightarrow> page" where
  "catch h out = (case out of (None, p) \<Rightarrow> p | (Some e, p) \<Rightarrow> h e p)"

definition console_error :: "js_error \<Rightarrow> page \<Rightarrow> page" where
  "console_error e p = p\<lparr>console := console p @ [e]\<rparr>"

text \<open>\<open>a < b\<close> and \<open>a > b\<close> on numbers that may be \<open>undefined\<close>: false then.\<close>

definition js_lt :: "nat option \<Rightarrow> nat option \<Rightarrow> bool" where
  "js_lt a b = (case (a, b) of (Some x, Some y) \<Rightarrow> x < y | _ \<Rightarrow> False)"

definition js_gt :: "nat option \<Rightarrow> nat option \<Rightarrow> bool" where
  "js_gt a b = js_lt b a"

subsection \<open>showToast\<close>

definition showToast :: "dom_text \<Rightarrow> string \<Rightarrow> page \<Rightarrow> page" where
  "showToast message ty p =
     (let border = (if ty = ''success'' then ''border-green-500'' else ''border-red-500'');
          txt = (if ty = ''success'' then ''text-green-800'' else ''text-red-800'')
      in p\<lparr>toasts := toasts p @
            [\<lparr>toast_message = message, toast_border = border, toast_text = txt\<rparr>]\<rparr>)"

subsection \<open>signOut\<close>

definition signOut :: "page \<Rightarrow> page" where
  "signOut p =
     p\<lparr>currentUser := None,
       localStorage := (localStorage p)(''receiptApiKey'' := None),
       reloaded := True\<rparr>"

subsection \<open>Plans and billing\<close>

text \<open>
  The two tables are object literals read by name. \<open>PLAN_LEVELS\<close> is read only to be
  compared with \<open><\<close> and \<open>>\<close>. A name it does not define reads as \<open>undefined\<close>, and
  a name that every object inherits (such as \<open>constructor\<close>) reads as a function; both
  convert to \<open>NaN\<close> in a comparison, which is then false, so \<open>None\<close> stands for both.
  \<open>PLAN_DETAILS\<close> is read only at the three names it defines.
\<close>

definition PLAN_LEVELS :: "string \<rightharpoonup> nat" where
  "PLAN_LEVELS = [''free'' \<mapsto> 0, ''pro'' \<mapsto> 1, ''enterprise'' \<mapsto> 2]"

record plan_details =
  label :: string
  details_price :: string
  details_limit :: string

definition PLAN_DETAILS :: "string \<rightharpoonup> plan_details" where
  "PLAN_DETAILS =
     [''free'' \<mapsto> \<lparr>label = ''Free'', details_price = ''$0'', details_limit = ''50 reqs/mo''\<rparr>,
      ''pro'' \<mapsto> \<lparr>label = ''Pro'', details_price = ''$29'', details_limit = ''5,000 reqs/mo''\<rparr>,
      ''enterprise'' \<mapsto>
        \<lparr>label = ''Enterprise'', details_price = ''$299'', details_limit = ''100k reqs/mo''\<rparr>]"

definition base_card_style :: "string list" where
  "base_card_style =
     [''relative'', ''flex'', ''items-center'', ''justify-between'', ''p-5'', ''rounded-2xl'',
      ''border'', ''transition-all'', ''duration-200'', ''bg-white'', ''dark:bg-slate-800'',
      ''border-slate-200'', ''dark:border-slate-700'', ''hover:border-indigo-300'',
      ''dark:hover:border-indigo-700'']"

definition btnClass :: "string \<Rightarrow> string list" where
  "btnClass planName =
     (if planName = ''enterprise''
      then [''bg-slate-900'', ''hover:bg-black'', ''dark:bg-white'', ''dark:text-slate-900'',
            ''dark:hover:bg-slate-200'', ''text-white'']
      else [''bg-indigo-600'', ''hover:bg-indigo-700'', ''text-white''])"

text \<open>
  The body of the \<open>forEach\<close> of \<open>updatePlanCards\<close> for one tier name. The three names
  it is run on all have details, so the read of \<open>details.price\<close> never fails there.
\<close>

definition render_card :: "string \<Rightarrow> nat option \<Rightarrow> string \<Rightarrow> page \<Rightarrow> page" where
  "render_card currentPlan currentLevel planName p =
     (case planCard p planName of
        None \<Rightarrow> p
      | Some _ \<Rightarrow>
         (case PLAN_DETAILS planName of
            None \<Rightarrow> p
          | Some details \<Rightarrow>
             (let cardLevel = PLAN_LEVELS planName;
                  c = (if planName = currentPlan then
                         \<lparr>className =
                            classList_add [''ring-2'', ''ring-indigo-500'', ''dark:ring-indigo-400'',
                                           ''bg-indigo-50/50'', ''dark:bg-indigo-900/20'',
                                           ''border-transparent'']
                              (classList_remove [''border-slate-200'', ''dark:border-slate-700'']
                                 base_card_style),
                          heading = label details, quota = details_limit details,
                          price = details_price details,
                          act = Some Current\<rparr>
                       else if js_lt cardLevel currentLevel then
                         \<lparr>className = base_card_style,
                          heading = label details, quota = details_limit details,
                          price = details_price details,
                          act = Some (Downgrade OpenPortal)\<rparr>
                       else
                         \<lparr>className = base_card_style,
                          heading = label details, quota = details_limit details,
                          price = details_price details,
                          act = Some (Upgrade (UpgradePlan planName) (btnClass planName))\<rparr>)
              in p\<lparr>planCard := (planCard p)(planName \<mapsto> c)\<rparr>)))"

definition updatePlanCards :: "string \<Rightarrow> page \<Rightarrow> page" where
  "updatePlanCards currentPlan0 p =
     (let currentPlan = (if currentPlan0 = [] then ''free'' else currentPlan0);
          currentLevel = PLAN_LEVELS currentPlan;
          p1 = (if js_gt currentLevel (Some 0)
                then p\<lparr>manageSubBtn_classList :=
                         classList_remove [''hidden''] (manageSubBtn_classList p)\<rparr>
                else p\<lparr>manageSubBtn_classList :=
                         classList_add [''hidden''] (manageSubBtn_classList p)\<rparr>)
      in fold (render_card currentPlan currentLevel) [''free'', ''pro'', ''enterprise''] p1)"

subsection \<open>API key and dashboard\<close>

text \<open>The locals \<open>plan\<close>, \<open>used\<close>, \<open>limit\<close> and \<open>percentage\<close> of \<open>updateDashboardUI\<close>.\<close>

definition plan_of :: "json_obj \<Rightarrow> string" where
  "plan_of data = or_str (plan data) ''free''"

definition used_of :: "json_obj \<Rightarrow> real" where
  "used_of data = or_num (requests_this_month data) 0"

text \<open>
  The names that an object literal answers to besides its own: the members of
  \<open>Object.prototype\<close>. Each is a function (\<open>__proto__\<close> reads as the prototype
  object), so each is truthy and none is a number.
\<close>

definition Object_prototype_names :: "string list" where
  "Object_prototype_names =
     [''constructor'', ''hasOwnProperty'', ''isPrototypeOf'', ''propertyIsEnumerable'',
      ''toLocaleString'', ''toString'', ''valueOf'', ''__proto__'', ''__defineGetter__'',
      ''__defineSetter__'', ''__lookupGetter__'', ''__lookupSetter__'']"

text \<open>
  What the local \<open>limit\<close> can hold: a number, or the inherited member that the
  literal of defaults gave for the plan name.
\<close>

datatype limit_value = Number real | Inherited string

definition truthy_limit :: "limit_value option \<Rightarrow> bool" where
  "truthy_limit v =
     (case v of None \<Rightarrow> False | Some (Number n) \<Rightarrow> n \<noteq> 0 | Some (Inherited m) \<Rightarrow> True)"

text \<open>\<open>a || b\<close> between two values that may be absent, and with a default.\<close>

definition or_opt :: "limit_value option \<Rightarrow> limit_value option \<Rightarrow> limit_value option" where
  "or_opt a b = (if truthy_limit a then a else b)"

definition or_limit :: "limit_value option \<Rightarrow> limit_value \<Rightarrow> limit_value" where
  "or_limit v dflt =
     (case v of
        None \<Rightarrow> dflt
      | Some (Number n) \<Rightarrow> if n = 0 then dflt else Number n
      | Some (Inherited m) \<Rightarrow> Inherited m)"

text \<open>
  The object literal of per-plan defaults inside the expression for \<open>limit\<close>, read at
  a name: its own three entries, else an inherited member, else \<open>undefined\<close>.
\<close>

definition DEFAULT_LIMITS :: "string \<rightharpoonup> limit_value" where
  "DEFAULT_LIMITS planName =
     (if planName = ''free'' then Some (Number 50)
      else if planName = ''pro'' then Some (Number 5000)
      else if planName = ''enterprise'' then Some (Number 100000)
      else if planName \<in> set Object_prototype_names then Some (Inherited planName)
      else None)"

definition limit_of :: "json_obj \<Rightarrow> limit_value" where
  "limit_of data =
     or_limit (or_opt (map_option Number (limit data)) (DEFAULT_LIMITS (plan_of data))) (Number 50)"

text \<open>\<open>limit.toLocaleString()\<close>.\<close>

definition limit_text :: "limit_value \<Rightarrow> dom_text" where
  "limit_text v = (case v of Number n \<Rightarrow> LocaleNum n | Inherited m \<Rightarrow> MemberString m)"

text \<open>
  The arithmetic of \<open>Math.min((used / limit) * 100, 100)\<close>. The divisor is converted
  to a number first, and a function or an object converts to \<open>NaN\<close>; a division by
  zero gives an infinity, or \<open>NaN\<close> for \<open>0 / 0\<close>.
\<close>

datatype js_number = NaN | Finite real | Infinity | NegInfinity

definition to_number :: "limit_value \<Rightarrow> js_number" where
  "to_number v = (case v of Number n \<Rightarrow> Finite n | Inherited m \<Rightarrow> NaN)"

definition js_div :: "real \<Rightarrow> js_number \<Rightarrow> js_number" where
  "js_div a d =
     (case d of
        NaN \<Rightarrow> NaN
      | Finite b \<Rightarrow>
          if b \<noteq> 0 then Finite (a / b)
          else if 0 < a then Infinity
          else if a < 0 then NegInfinity
          else NaN
      | Infinity \<Rightarrow> Finite 0
      | NegInfinity \<Rightarrow> Finite 0)"

definition times_100 :: "js_number \<Rightarrow> js_number" where
  "times_100 x =
     (case x of NaN \<Rightarrow> NaN | Finite a \<Rightarrow> Finite (a * 100) | Infinity \<Rightarrow> Infinity
      | NegInfinity \<Rightarrow> NegInfinity)"

definition min_100 :: "js_number \<Rightarrow> js_number" where
  "min_100 x =
     (case x of NaN \<Rightarrow> NaN | Finite a \<Rightarrow> Finite (min a 100) | Infinity \<Rightarrow> Finite 100
      | NegInfinity \<Rightarrow> NegInfinity)"

definition percentage_of :: "json_obj \<Rightarrow> js_number" where
  "percentage_of data = min_100 (times_100 (js_div (used_of data) (to_number (limit_of data))))"

text \<open>\<open>percentage > 90\<close>: false on \<open>NaN\<close>.\<close>

definition above_90 :: "js_number \<Rightarrow> bool" where
  "above_90 x =
     (case x of NaN \<Rightarrow> False | Finite a \<Rightarrow> 90 < a | Infinity \<Rightarrow> True | NegInfinity \<Rightarrow> False)"

text \<open>
  \<open>bar.style.width = `${percentage}%`\<close>: the style takes a percentage that is a
  number and not negative, and keeps the width it had otherwise.
\<close>

definition set_width :: "js_number \<Rightarrow> real \<Rightarrow> real" where
  "set_width x old = (case x of Finite a \<Rightarrow> if 0 \<le> a then a else old | _ \<Rightarrow> old)"

definition updateDashboardUI :: "json_obj \<Rightarrow> page \<Rightarrow> page" where
  "updateDashboardUI data p =
     (let p1 = p\<lparr>apiKeyDisplay_value := to_dom_string (masked_key data),
                  apiKeyDisplay_classList :=
                    classList_add [''text-slate-600'', ''dark:text-slate-300'']
                      (classList_remove [''text-green-600'', ''font-bold'']
                         (apiKeyDisplay_classList p)),
                  copyApiKeyBtn_classList := classList_add [''hidden''] (copyApiKeyBtn_classList p),
                  keyWarningMsg_classList := classList_add [''hidden''] (keyWarningMsg_classList p),
                  requestCount := LocaleNum (used_of data),
                  requestsLimit := limit_text (limit_of data),
                  usageBar_width := set_width (percentage_of data) (usageBar_width p),
                  usageBar_classList :=
                    (if above_90 (percentage_of data)
                     then classList_add [''bg-red-500'']
                            (classList_remove [''bg-indigo-600''] (usageBar_classList p))
                     else classList_remove [''bg-red-500'']
                            (classList_add [''bg-indigo-600''] (usageBar_classList p)))\<rparr>
      in updatePlanCards (plan_of data) p1)"

definition revealNewKey :: "json_obj \<Rightarrow> page \<Rightarrow> page" where
  "revealNewKey data p =
     p\<lparr>apiKeyDisplay_value := to_dom_string (key data),
       apiKeyDisplay_classList :=
         classList_add [''text-green-600'', ''font-bold'']
           (classList_remove [''text-slate-600'', ''dark:text-slate-300'']
              (apiKeyDisplay_classList p)),
       copyApiKeyBtn_classList := classList_remove [''hidden''] (copyApiKeyBtn_classList p),
       keyWarningMsg_classList := classList_remove [''hidden''] (keyWarningMsg_classList p),
       requestCount := Lit ''0'',
       usageBar_width := 0,
       localStorage := (localStorage p)(''receiptApiKey'' \<mapsto> to_dom_string (key data))\<rparr>"

text \<open>
  \<open>createNewKey\<close> has no \<open>try\<close> of its own: a rejected \<open>fetch\<close>, a body that is not
  JSON and the read of \<open>data.key\<close> on a \<open>null\<close> body leave it as exceptions, after the
  request has gone out.
\<close>

definition createNewKey :: "string \<Rightarrow> string \<Rightarrow> fetch_result \<Rightarrow> page \<Rightarrow> outcome" where
  "createNewKey idToken em signupResult p =
     (let p1 = fetch (Signup idToken em ''free'') p
      in case signupResult of
           Inl e \<Rightarrow> (Some e, p1)
         | Inr response \<Rightarrow>
            (case json response of
               Inl e \<Rightarrow> (Some e, p1)
             | Inr JsonNull \<Rightarrow> (Some TypeError, p1)
             | Inr (JsonObject data) \<Rightarrow>
                 if truthy_str (key data) then (None, revealNewKey data p1) else (None, p1)))"

text \<open>
  The \<open>try\<close> block of \<open>getOrCreateAPIKey\<close>. \<open>response.ok && data.masked_key\<close> reads
  \<open>data\<close> only when \<open>response.ok\<close> holds, so a \<open>null\<close> body raises only then.
\<close>

definition getOrCreateAPIKey_try ::
  "user \<Rightarrow> fetch_result \<Rightarrow> fetch_result \<Rightarrow> page \<Rightarrow> outcome" where
  "getOrCreateAPIKey_try u keyResult signupResult p =
     (case getIdToken u of
        Inl e \<Rightarrow> (Some e, p)
      | Inr idToken \<Rightarrow>
         (let p1 = fetch (GetKey idToken) p
          in case keyResult of
               Inl e \<Rightarrow> (Some e, p1)
             | Inr response \<Rightarrow>
                (case json response of
                   Inl e \<Rightarrow> (Some e, p1)
                 | Inr JsonNull \<Rightarrow>
                     if ok response then (Some TypeError, p1)
                     else if status response = 404
                     then createNewKey idToken (email u) signupResult p1
                     else (None, p1)
                 | Inr (JsonObject data) \<Rightarrow>
                     if ok response \<and> truthy_str (masked_key data)
                     then (None, updateDashboardUI data p1)
                     else if status response = 404
                     then createNewKey idToken (email u) signupResult p1
                     else (None, p1))))"

definition getOrCreateAPIKey :: "user \<Rightarrow> fetch_result \<Rightarrow> fetch_result \<Rightarrow> page \<Rightarrow> page" where
  "getOrCreateAPIKey u keyResult signupResult p =
     catch console_error (getOrCreateAPIKey_try u keyResult signupResult p)"

text \<open>The badge or button on the card of a tier, when the card exists and was rendered.\<close>

definition marking :: "page \<Rightarrow> string \<Rightarrow> action option" where
  "marking p planName = (case planCard p planName of None \<Rightarrow> None | Some c \<Rightarrow> act c)"

text \<open>
  \<open>upgradePlan\<close> and \<open>openPortal\<close>: the first checks for a signed-in user before its
  \<open>try\<close>, the second dereferences \<open>currentUser\<close> inside it.
\<close>

definition upgradePlan_try :: "user \<Rightarrow> string \<Rightarrow> fetch_result \<Rightarrow> page \<Rightarrow> outcome" where
  "upgradePlan_try u pl res p =
     (case getIdToken u of
        Inl e \<Rightarrow> (Some e, p)
      | Inr idToken \<Rightarrow>
         (let p1 = fetch (CreateCheckout pl idToken) p
          in case res of
               Inl e \<Rightarrow> (Some e, p1)
             | Inr response \<Rightarrow>
                (case json response of
                   Inl e \<Rightarrow> (Some e, p1)
                 | Inr JsonNull \<Rightarrow> (Some TypeError, p1)
                 | Inr (JsonObject data) \<Rightarrow>
                     if ok response \<and> truthy_str (checkout_url data)
                     then (None, p1\<lparr>location_href := checkout_url data\<rparr>)
                     else (None, showToast (Lit (or_str (detail data) ''Checkout failed''))
                                   ''error'' p1))))"

definition upgradePlan :: "string \<Rightarrow> fetch_result \<Rightarrow> page \<Rightarrow> page" where
  "upgradePlan pl res p =
     (case currentUser p of
        None \<Rightarrow> showToast (Lit ''Please sign in first'') ''error'' p
      | Some u \<Rightarrow> catch (\<lambda>e. showToast (MessageOf e) ''error'') (upgradePlan_try u pl res p))"

definition openPortal_try :: "fetch_result \<Rightarrow> page \<Rightarrow> outcome" where
  "openPortal_try res p =
     (case currentUser p of
        None \<Rightarrow> (Some TypeError, p)
      | Some u \<Rightarrow>
         (case getIdToken u of
            Inl e \<Rightarrow> (Some e, p)
          | Inr idToken \<Rightarrow>
             (let p1 = fetch (CreatePortal idToken) p
              in case res of
                   Inl e \<Rightarrow> (Some e, p1)
                 | Inr response \<Rightarrow>
                    (case json response of
                       Inl e \<Rightarrow> (Some e, p1)
                     | Inr JsonNull \<Rightarrow> (Some TypeError, p1)
                     | Inr (JsonObject data) \<Rightarrow>
                         if truthy_str (url data)
                         then (None, p1\<lparr>location_href := url data\<rparr>)
                         else (None, showToast (Lit (or_str (detail data) ''Error opening portal''))
                                       ''error'' p1)))))"

definition openPortal :: "fetch_result \<Rightarrow> page \<Rightarrow> page" where
  "openPortal res p = catch (\<lambda>e. showToast (MessageOf e) ''error'') (openPortal_try res p)"

text \<open>What a click on a rendered button runs.\<close>

fun click :: "onclick \<Rightarrow> fetch_result \<Rightarrow> page \<Rightarrow> page" where
  "click OpenPortal res p = openPortal res p"
| "click (UpgradePlan planName) res p = upgradePlan planName res p"

subsection \<open>Sandbox\<close>

text \<open>
  The input strings of the sandbox are lists of UTF-16 code units, as \<open>trim\<close> and
  \<open>includes\<close> (here \<open>includes_at\<close>) see them. \<open>is_white\<close> is the \<open>WhiteSpace\<close> and \<open>LineTerminator\<close> set of
  ECMAScript that \<open>trim\<close> strips.
\<close>

definition is_white :: "nat \<Rightarrow> bool" where
  "is_white c =
     (c \<in> {0x09, 0x0A, 0x0B, 0x0C, 0x0D, 0x20, 0xA0, 0x1680, 0x2028, 0x2029, 0x202F, 0x205F,
            0x3000, 0xFEFF}
      \<or> (0x2000 \<le> c \<and> c \<le> 0x200A))"

definition trim :: "nat list \<Rightarrow> nat list" where
  "trim s = rev (dropWhile is_white (rev (dropWhile is_white s)))"

fun includes_at :: "'a list \<Rightarrow> 'a list \<Rightarrow> bool" where
  "includes_at [] needle = (needle = [])"
| "includes_at (x # xs) needle = (prefix needle (x # xs) \<or> includes_at xs needle)"

text \<open>The literal of four bullets (U+2022) that the masked key is displayed with.\<close>

definition MASK :: "nat list" where
  "MASK = [0x2022, 0x2022, 0x2022, 0x2022]"

text \<open>\<open>s.split(',')\<close> and an index into its result, \<open>undefined\<close> past the end.\<close>

fun split_on :: "char \<Rightarrow> string \<Rightarrow> string list" where
  "split_on c [] = [[]]"
| "split_on c (x # xs) =
     (if x = c then [] # split_on c xs
      else (case split_on c xs of [] \<Rightarrow> [[x]] | w # ws \<Rightarrow> (x # w) # ws))"

definition at_index :: "'a list \<Rightarrow> nat \<Rightarrow> 'a option" where
  "at_index xs i = (if i < length xs then Some (xs ! i) else None)"

definition MAX_FILE_SIZE :: nat where
  "MAX_FILE_SIZE = 10 * 1024 * 1024"

text \<open>
  \<open>handleFileSelection\<close>, with the \<open>onload\<close> callback of its reader: \<open>loaded\<close> is the
  data URL the reader delivers, \<open>None\<close> when the read fails and the callback never runs.
\<close>

definition preview_onload :: "js_file \<Rightarrow> string \<Rightarrow> page \<Rightarrow> page" where
  "preview_onload f result p =
     (let p1 = p\<lparr>dropContent_classList := classList_add [''hidden''] (dropContent_classList p),
                  previewImage_classList :=
                    [''absolute'', ''inset-0'', ''w-full'', ''h-full'', ''object-contain'', ''p-4'',
                     ''z-10'']\<rparr>;
          p2 = (if file_type f = ''application/pdf''
                then p1\<lparr>previewImage_src :=
                          ''https://cdn-icons-png.flaticon.com/512/4726/4726010.png'',
                        previewImage_padding := ''40px''\<rparr>
                else p1\<lparr>previewImage_src := result, previewImage_padding := ''10px''\<rparr>)
      in p2\<lparr>previewImage_classList := classList_remove [''hidden''] (previewImage_classList p2)\<rparr>)"

definition handleFileSelection :: "js_file option \<Rightarrow> string option \<Rightarrow> page \<Rightarrow> page" where
  "handleFileSelection chosen loaded p =
     (case chosen of
        None \<Rightarrow> p
      | Some f \<Rightarrow>
         if file_size f > MAX_FILE_SIZE
         then showToast (Lit ''File too large. Max 10MB.'') ''error'' p
         else
           (let p1 = p\<lparr>currentSelectedFile := Some f,
                        extractBtn_disabled := False,
                        extractBtn_innerHTML := BoltExtractData,
                        extractBtn_classList :=
                          classList_remove [''opacity-50'', ''cursor-not-allowed'']
                            (extractBtn_classList p)\<rparr>
            in case loaded of None \<Rightarrow> p1 | Some result \<Rightarrow> preview_onload f result p1))"

text \<open>
  \<open>performApiCall\<close> up to its \<open>await fetch\<close>: the submitting state. What it does with
  the response is not part of this development.
\<close>

definition performApiCall :: "string option \<Rightarrow> string \<Rightarrow> string \<Rightarrow> nat list \<Rightarrow> page \<Rightarrow> page" where
  "performApiCall base64 mime docType k p =
     fetch (Extract k base64 mime docType)
       (p\<lparr>processingIndicator_classList :=
            classList_remove [''hidden''] (processingIndicator_classList p),
          resultsArea_classList := classList_add [''opacity-30''] (resultsArea_classList p),
          extractBtn_disabled := True,
          extractBtn_innerHTML := ProcessingDots\<rparr>)"

text \<open>
  \<open>triggerExtraction\<close>, with the \<open>onload\<close> callback of its reader (\<open>loaded\<close> as above).
\<close>

definition triggerExtraction :: "string option \<Rightarrow> page \<Rightarrow> page" where
  "triggerExtraction loaded p =
     (case currentSelectedFile p of
        None \<Rightarrow> showToast (Lit ''Select a file first.'') ''error'' p
      | Some f \<Rightarrow>
         (let k = trim (testApiKeyInput_value p);
              docType = docTypeInput_value p
          in if k = [] \<or> includes_at k MASK
             then (showToast (Lit ''Please paste your REAL API Key.'') ''error'' p)
                    \<lparr>activeElement := Some ''testApiKeyInput''\<rparr>
             else (case loaded of
                     None \<Rightarrow> p
                   | Some result \<Rightarrow>
                       performApiCall (at_index (split_on CHR '','' result) 1) (file_type f)
                         docType k p)))"

subsection \<open>Key rotation\<close>

definition rotateKey :: "page \<Rightarrow> page" where
  "rotateKey p = p\<lparr>rotateModal_classList := classList_remove [''hidden''] (rotateModal_classList p)\<rparr>"

definition closeRotateModal :: "page \<Rightarrow> page" where
  "closeRotateModal p =
     p\<lparr>rotateModal_classList := classList_add [''hidden''] (rotateModal_classList p)\<rparr>"

text \<open>
  The \<open>try\<close> block of \<open>confirmRotate\<close>. The token is awaited while the arguments of
  \<open>fetch\<close> are built, so without a user or a token no request goes out.
\<close>

definition confirmRotate_try :: "fetch_result \<Rightarrow> page \<Rightarrow> outcome" where
  "confirmRotate_try res p =
     (case currentUser p of
        None \<Rightarrow> (Some TypeError, p)
      | Some u \<Rightarrow>
         (case getIdToken u of
            Inl e \<Rightarrow> (Some e, p)
          | Inr idToken \<Rightarrow>
             (let p1 = fetch (RegenerateKey idToken) p
              in case res of
                   Inl e \<Rightarrow> (Some e, p1)
                 | Inr response \<Rightarrow>
                    (case json response of
                       Inl e \<Rightarrow> (Some e, p1)
                     | Inr JsonNull \<Rightarrow> (Some TypeError, p1)
                     | Inr (JsonObject data) \<Rightarrow>
                         if truthy_str (key data)
                         then (None, showToast (Lit ''Key Rotated Successfully'') ''success''
                                       (revealNewKey data p1))
                         else (None, p1)))))"

definition confirmRotate :: "fetch_result \<Rightarrow> page \<Rightarrow> page" where
  "confirmRotate res p =
     catch (\<lambda>e. showToast (MessageOf e) ''error'') (confirmRotate_try res (closeRotateModal p))"

subsection \<open>Runs of the page\<close>

text \<open>
  One event is one handler run to completion with the answers of the environment it
  consumes; \<open>Input_key\<close> and \<open>Input_docType\<close> are the user editing the two sandbox
  inputs, \<open>Auth_changed\<close> the identity provider setting the current user.
\<close>

datatype event =
    Ev_signOut
  | Ev_getOrCreateAPIKey user fetch_result fetch_result
  | Ev_click onclick fetch_result
  | Ev_handleFileSelection "js_file option" "string option"
  | Ev_triggerExtraction "string option"
  | Ev_rotateKey
  | Ev_closeRotateModal
  | Ev_confirmRotate fetch_result
  | Input_key "nat list"
  | Input_docType string
  | Auth_changed "user option"

fun step :: "event \<Rightarrow> page \<Rightarrow> page" where
  "step Ev_signOut p = signOut p"
| "step (Ev_getOrCreateAPIKey u r1 r2) p = getOrCreateAPIKey u r1 r2 p"
| "step (Ev_click h r) p = click h r p"
| "step (Ev_handleFileSelection f l) p = handleFileSelection f l p"
| "step (Ev_triggerExtraction l) p = triggerExtraction l p"
| "step Ev_rotateKey p = rotateKey p"
| "step Ev_closeRotateModal p = closeRotateModal p"
| "step (Ev_confirmRotate r) p = confirmRotate r p"
| "step (Input_key s) p = p\<lparr>testApiKeyInput_value := s\<rparr>"
| "step (Input_docType s) p = p\<lparr>docTypeInput_value := s\<rparr>"
| "step (Auth_changed u) p = p\<lparr>currentUser := u\<rparr>"

definition run :: "event list \<Rightarrow> page \<Rightarrow> page" where
  "run es p = fold step es p"

fun is_confirmRotate :: "event \<Rightarrow> bool" where
  "is_confirmRotate (Ev_confirmRotate r) = True"
| "is_confirmRotate _ = False"

fun is_RegenerateKey :: "request \<Rightarrow> bool" where
  "is_RegenerateKey (RegenerateKey t) = True"
| "is_RegenerateKey _ = False"

text \<open>The rotation requests that a page has issued.\<close>

definition rotations :: "page \<Rightarrow> request list" where
  "rotations p = filter is_RegenerateKey (requests p)"

subsection \<open>Concrete inputs\<close>

text \<open>
  A page with the three plan cards present and nothing rendered yet, a signed-in user
  whose token is \<open>tok\<close>, and a few responses. The theorems below are evaluated on them.
\<close>

definition blank_card :: card where
  "blank_card = \<lparr>className = [], heading = [], quota = [], price = [], act = None\<rparr>"

definition sample_user :: user where
  "sample_user = \<lparr>email = ''a@b.c'', getIdToken = Inr ''tok''\<rparr>"

definition sample_page :: page where
  "sample_page =
     \<lparr>apiKeyDisplay_value = [],
      apiKeyDisplay_classList = [''text-slate-600''],
      copyApiKeyBtn_classList = [''hidden''],
      keyWarningMsg_classList = [''hidden''],
      requestCount = Lit ''--'',
      requestsLimit = Lit ''--'',
      usageBar_width = 0,
      usageBar_classList = [''bg-indigo-600''],
      manageSubBtn_classList = [''hidden''],
      planCard = [''free'' \<mapsto> blank_card, ''pro'' \<mapsto> blank_card, ''enterprise'' \<mapsto> blank_card],
      rotateModal_classList = [''hidden''],
      testApiKeyInput_value = [],
      docTypeInput_value = ''receipt'',
      activeElement = None,
      extractBtn_disabled = True,
      extractBtn_innerHTML = StaticHtml,
      extractBtn_classList = [''opacity-50'', ''cursor-not-allowed''],
      processingIndicator_classList = [''hidden''],
      resultsArea_classList = [],
      dropContent_classList = [],
      previewImage_classList = [''hidden''],
      previewImage_src = [],
      previewImage_padding = [],
      toasts = [],
      console = [],
      requests = [],
      localStorage = Map.empty,
      currentSelectedFile = None,
      currentUser = Some sample_user,
      location_href = None,
      reloaded = False\<rparr>"

definition no_fields :: json_obj where
  "no_fields =
     \<lparr>masked_key = None, key = None, plan = None, requests_this_month = None, limit = None,
      checkout_url = None, url = None, detail = None\<rparr>"

definition with_key :: response where
  "with_key = \<lparr>status = 200, body = Some (JsonObject (no_fields\<lparr>key := Some ''sk_live_1''\<rparr>))\<rparr>"

definition with_masked_key :: response where
  "with_masked_key =
     \<lparr>status = 200,
      body = Some (JsonObject (no_fields\<lparr>masked_key := Some ''sk_live_...'', plan := Some ''pro'',
                                 requests_this_month := Some 10\<rparr>))\<rparr>"

definition not_found :: response where
  "not_found = \<lparr>status = 404, body = Some (JsonObject (no_fields\<lparr>detail := Some ''No key''\<rparr>))\<rparr>"

definition not_found_html :: response where
  "not_found_html = \<lparr>status = 404, body = None\<rparr>"

definition server_error :: response where
  "server_error = \<lparr>status = 500, body = Some (JsonObject (no_fields\<lparr>detail := Some ''Oops''\<rparr>))\<rparr>"

definition png :: js_file where
  "png = \<lparr>file_size = 2048, file_type = ''image/png''\<rparr>"

text \<open>The sandbox with a file chosen, the key \<open>sk\<close> typed, and no document type.\<close>

definition page_without_docType :: page where
  "page_without_docType =
     sample_page\<lparr>currentSelectedFile := Some png, testApiKeyInput_value := [115, 107],
                    docTypeInput_value := []\<rparr>"

section \<open>What the rendering functions leave alone\<close>

text \<open>
  \<open>updatePlanCards\<close> writes the class list of the manage button and the cards,
  and nothing else of the page.
\<close>

lemma render_card_frame: "\<exists>pc. render_card cp lv n p = p\<lparr>planCard := pc\<rparr>"
proof (cases "planCard p n")
  case None
  then have "render_card cp lv n p = p\<lparr>planCard := planCard p\<rparr>"
    by (simp add: render_card_def)
  then show ?thesis by blast
next
  case (Some c)
  show ?thesis
  proof (cases "PLAN_DETAILS n")
    case None
    with Some have "render_card cp lv n p = p\<lparr>planCard := planCard p\<rparr>"
      by (simp add: render_card_def)
    then show ?thesis by blast
  next
    case (Some d)
    with \<open>planCard p n = Some c\<close>
    have "render_card cp lv n p = p\<lparr>planCard := planCard (render_card cp lv n p)\<rparr>"
      by (simp add: render_card_def Let_def)
    then show ?thesis by blast
  qed
qed

lemma fold_render_card_frame: "\<exists>pc. fold (render_card cp lv) ns p = p\<lparr>planCard := pc\<rparr>"
proof (induction ns arbitrary: p)
  case Nil
  have "fold (render_card cp lv) [] p = p\<lparr>planCard := planCard p\<rparr>" by simp
  then show ?case by blast
next
  case (Cons n ns)
  obtain pc where a: "render_card cp lv n p = p\<lparr>planCard := pc\<rparr>"
    using render_card_frame by blast
  obtain pc' where b: "fold (render_card cp lv) ns (p\<lparr>planCard := pc\<rparr>) = p\<lparr>planCard := pc\<rparr>\<lparr>planCard := pc'\<rparr>"
    using Cons.IH by blast
  show ?case using a b by auto
qed

lemma updatePlanCards_frame:
  "\<exists>m pc. updatePlanCards cp p = p\<lparr>manageSubBtn_classList := m, planCard := pc\<rparr>"
proof -
  define cp' where "cp' = (if cp = [] then ''free'' else cp)"
  define p1 where "p1 = (if js_gt (PLAN_LEVELS cp') (Some 0)
                then p\<lparr>manageSubBtn_classList :=
                         classList_remove [''hidden''] (manageSubBtn_classList p)\<rparr>
                else p\<lparr>manageSubBtn_classList :=
                         classList_add [''hidden''] (manageSubBtn_classList p)\<rparr>)"
  have u: "updatePlanCards cp p = fold (render_card cp' (PLAN_LEVELS cp')) [''free'', ''pro'', ''enterprise''] p1"
    unfolding updatePlanCards_def Let_def cp'_def p1_def by (rule refl)
  obtain m where m: "p1 = p\<lparr>manageSubBtn_classList := m\<rparr>"
    unfolding p1_def by (cases "js_gt (PLAN_LEVELS cp') (Some 0)") auto
  obtain pc where "fold (render_card cp' (PLAN_LEVELS cp')) [''free'', ''pro'', ''enterprise''] p1 = p1\<lparr>planCard := pc\<rparr>"
    using fold_render_card_frame by blast
  with u m show ?thesis by auto
qed

text \<open>\<open>updateDashboardUI\<close> writes the key display, the usage figures and what \<open>updatePlanCards\<close> writes.\<close>

lemma updateDashboardUI_frame:
  "\<exists>m pc. updateDashboardUI data p =
     p\<lparr>apiKeyDisplay_value := to_dom_string (masked_key data),
       apiKeyDisplay_classList :=
         classList_add [''text-slate-600'', ''dark:text-slate-300'']
           (classList_remove [''text-green-600'', ''font-bold''] (apiKeyDisplay_classList p)),
       copyApiKeyBtn_classList := classList_add [''hidden''] (copyApiKeyBtn_classList p),
       keyWarningMsg_classList := classList_add [''hidden''] (keyWarningMsg_classList p),
       requestCount := LocaleNum (used_of data),
       requestsLimit := limit_text (limit_of data),
       usageBar_width := set_width (percentage_of data) (usageBar_width p),
       usageBar_classList :=
         (if above_90 (percentage_of data)
          then classList_add [''bg-red-500'']
                 (classList_remove [''bg-indigo-600''] (usageBar_classList p))
          else classList_remove [''bg-red-500'']
                 (classList_add [''bg-indigo-600''] (usageBar_classList p))),
       manageSubBtn_classList := m, planCard := pc\<rparr>"
proof -
  define p1 where "p1 = p\<lparr>apiKeyDisplay_value := to_dom_string (masked_key data),
       apiKeyDisplay_classList :=
         classList_add [''text-slate-600'', ''dark:text-slate-300'']
           (classList_remove [''text-green-600'', ''font-bold''] (apiKeyDisplay_classList p)),
       copyApiKeyBtn_classList := classList_add [''hidden''] (copyApiKeyBtn_classList p),
       keyWarningMsg_classList := classList_add [''hidden''] (keyWarningMsg_classList p),
       requestCount := LocaleNum (used_of data),
       requestsLimit := limit_text (limit_of data),
       usageBar_width := set_width (percentage_of data) (usageBar_width p),
       usageBar_classList :=
         (if above_90 (percentage_of data)
          then classList_add [''bg-red-500'']
                 (classList_remove [''bg-indigo-600''] (usageBar_classList p))
          else classList_remove [''bg-red-500'']
                 (classList_add [''bg-indigo-600''] (usageBar_classList p)))\<rparr>"
  have u: "updateDashboardUI data p = updatePlanCards (plan_of data) p1"
    unfolding updateDashboardUI_def Let_def p1_def by (rule refl)
  obtain m pc where "updatePlanCards (plan_of data) p1 = p1\<lparr>manageSubBtn_classList := m, planCard := pc\<rparr>"
    using updatePlanCards_frame by blast
  with u have e: "updateDashboardUI data p = p1\<lparr>manageSubBtn_classList := m, planCard := pc\<rparr>"
    by simp
  show ?thesis
    by (rule exI [of _ m], rule exI [of _ pc], rule e [unfolded p1_def])
qed

lemma updateDashboardUI_display:
  "requestCount (updateDashboardUI data p) = LocaleNum (used_of data)"
  "requestsLimit (updateDashboardUI data p) = limit_text (limit_of data)"
  "usageBar_width (updateDashboardUI data p) = set_width (percentage_of data) (usageBar_width p)"
  "usageBar_classList (updateDashboardUI data p) =
     (if above_90 (percentage_of data)
      then classList_add [''bg-red-500''] (classList_remove [''bg-indigo-600''] (usageBar_classList p))
      else classList_remove [''bg-red-500''] (classList_add [''bg-indigo-600''] (usageBar_classList p)))"
  "apiKeyDisplay_value (updateDashboardUI data p) = to_dom_string (masked_key data)"
  using updateDashboardUI_frame [of data p] by auto

lemma updateDashboardUI_keeps:
  "requests (updateDashboardUI data p) = requests p"
  "console (updateDashboardUI data p) = console p"
  "toasts (updateDashboardUI data p) = toasts p"
  "localStorage (updateDashboardUI data p) = localStorage p"
  "currentSelectedFile (updateDashboardUI data p) = currentSelectedFile p"
  using updateDashboardUI_frame [of data p] by auto

lemma updatePlanCards_keeps:
  "requests (updatePlanCards cp p) = requests p"
  "console (updatePlanCards cp p) = console p"
  "toasts (updatePlanCards cp p) = toasts p"
  "localStorage (updatePlanCards cp p) = localStorage p"
  using updatePlanCards_frame [of cp p] by auto

text \<open>Class lists as sets of tokens.\<close>

lemma classList_add_one: "set (classList_add [t] cs) = insert t (set cs)"
  by (auto simp: classList_add_def)

lemma classList_remove_one: "set (classList_remove [t] cs) = set cs - {t}"
  by (auto simp: classList_remove_def)

text \<open>Fields that the other handlers leave alone.\<close>

lemma showToast_keeps:
  "requests (showToast m ty p) = requests p"
  "console (showToast m ty p) = console p"
  "localStorage (showToast m ty p) = localStorage p"
  "currentSelectedFile (showToast m ty p) = currentSelectedFile p"
  "apiKeyDisplay_value (showToast m ty p) = apiKeyDisplay_value p"
  "requestCount (showToast m ty p) = requestCount p"
  "usageBar_width (showToast m ty p) = usageBar_width p"
  by (simp_all add: showToast_def)

lemma preview_onload_keeps:
  "requests (preview_onload f r p) = requests p"
  "localStorage (preview_onload f r p) = localStorage p"
  "currentSelectedFile (preview_onload f r p) = currentSelectedFile p"
  "toasts (preview_onload f r p) = toasts p"
  by (simp_all add: preview_onload_def Let_def)

lemma revealNewKey_display:
  "apiKeyDisplay_value (revealNewKey data p) = to_dom_string (key data)"
  "requestCount (revealNewKey data p) = Lit ''0''"
  "usageBar_width (revealNewKey data p) = 0"
  "localStorage (revealNewKey data p) = (localStorage p)(''receiptApiKey'' \<mapsto> to_dom_string (key data))"
  "requests (revealNewKey data p) = requests p"
  "console (revealNewKey data p) = console p"
  "toasts (revealNewKey data p) = toasts p"
  by (simp_all add: revealNewKey_def)

lemma plan_of_cases:
  "plan_of data = (case plan data of None \<Rightarrow> ''free'' | Some s \<Rightarrow> if s = [] then ''free'' else s)"
  by (simp add: plan_of_def or_str_def)

section \<open>The limit shown on the dashboard\<close>

text \<open>
  The three plan names are the literal's own, a limit other than 0 is kept, and without
  one the literal of defaults decides, with 50 behind it.
\<close>

lemma inherited_not_own:
  "''free'' \<notin> set Object_prototype_names" "''pro'' \<notin> set Object_prototype_names"
  "''enterprise'' \<notin> set Object_prototype_names"
  by (simp_all add: Object_prototype_names_def)

lemma limit_of_supplied: "limit data = Some n \<Longrightarrow> n \<noteq> 0 \<Longrightarrow> limit_of data = Number n"
  by (simp add: limit_of_def or_opt_def or_limit_def truthy_limit_def)

lemma limit_of_fallback:
  "limit data = None \<or> limit data = Some 0 \<Longrightarrow>
     limit_of data = or_limit (DEFAULT_LIMITS (plan_of data)) (Number 50)"
  by (auto simp add: limit_of_def or_opt_def truthy_limit_def)

lemma fallback_own:
  "planName \<notin> set Object_prototype_names \<Longrightarrow>
     or_limit (DEFAULT_LIMITS planName) (Number 50) =
       Number (if planName = ''free'' then 50
               else if planName = ''pro'' then 5000
               else if planName = ''enterprise'' then 100000
               else 50)"
  by (simp add: DEFAULT_LIMITS_def or_limit_def)

lemma no_fields_eval:
  "masked_key no_fields = None" "key no_fields = None" "plan no_fields = None"
  "requests_this_month no_fields = None" "limit no_fields = None"
  by (simp_all add: no_fields_def)

text \<open>
  C3, as the spec states it: the limit shown is the limit of the server when the server
  supplies one, else the default of the plan, else 50. It fails where the server supplies
  the limit 0: with the plan \<open>pro\<close> the dashboard shows 5000. The last step fails too,
  for a plan name that every object answers to: with no limit and the plan
  \<open>constructor\<close> the literal of defaults gives a function, and the dashboard shows
  its text, not 50.
\<close>

theorem limit_zero_counterexample:
  "limit (no_fields\<lparr>limit := Some 0, plan := Some ''pro''\<rparr>) = Some 0
   \<and> requestsLimit (updateDashboardUI (no_fields\<lparr>limit := Some 0, plan := Some ''pro''\<rparr>) sample_page)
       = LocaleNum 5000
   \<and> limit (no_fields\<lparr>plan := Some ''constructor''\<rparr>) = None
   \<and> requestsLimit (updateDashboardUI (no_fields\<lparr>plan := Some ''constructor''\<rparr>) sample_page)
       = MemberString ''constructor''"
  by (simp add: updateDashboardUI_display limit_of_def plan_of_def or_str_def or_limit_def
      or_opt_def truthy_limit_def DEFAULT_LIMITS_def Object_prototype_names_def limit_text_def
      no_fields_def)

text \<open>
  C3, amended: the limit shown by \<open>updateDashboardUI\<close> is the limit of the server when
  that is supplied and is not 0; else the default of the plan (50 for free, 5000 for pro,
  100000 for enterprise); else, for a plan name that is not a member every object
  inherits, 50. In particular the limit 200 gives 200, no limit with the plan pro gives
  5000, and neither limit nor plan gives 50. (The limit of the server is a JSON number.)
\<close>

theorem limit_resolution:
  "requestsLimit (updateDashboardUI data p) = limit_text (limit_of data)
   \<and> (\<forall>n. limit data = Some n \<and> n \<noteq> 0 \<longrightarrow>
         limit_of data = Number n \<and> requestsLimit (updateDashboardUI data p) = LocaleNum n)
   \<and> ((limit data = None \<or> limit data = Some 0) \<and> plan_of data \<notin> set Object_prototype_names \<longrightarrow>
        limit_of data =
          Number (if plan_of data = ''free'' then 50
                  else if plan_of data = ''pro'' then 5000
                  else if plan_of data = ''enterprise'' then 100000
                  else 50))
   \<and> (limit data = Some 200 \<longrightarrow> limit_of data = Number 200)
   \<and> (limit data = None \<and> plan data = Some ''pro'' \<longrightarrow> limit_of data = Number 5000)
   \<and> (limit data = None \<and> plan data = None \<longrightarrow> limit_of data = Number 50)"
proof -
  have shown: "requestsLimit (updateDashboardUI data p) = limit_text (limit_of data)"
    by (rule updateDashboardUI_display)
  have supplied: "\<forall>n. limit data = Some n \<and> n \<noteq> 0 \<longrightarrow>
         limit_of data = Number n \<and> requestsLimit (updateDashboardUI data p) = LocaleNum n"
    by (simp add: shown limit_of_supplied limit_text_def)
  have fallback: "(limit data = None \<or> limit data = Some 0) \<and> plan_of data \<notin> set Object_prototype_names \<longrightarrow>
        limit_of data =
          Number (if plan_of data = ''free'' then 50
                  else if plan_of data = ''pro'' then 5000
                  else if plan_of data = ''enterprise'' then 100000
                  else 50)"
  proof
    assume h: "(limit data = None \<or> limit data = Some 0) \<and> plan_of data \<notin> set Object_prototype_names"
    then have "limit_of data = or_limit (DEFAULT_LIMITS (plan_of data)) (Number 50)"
      using limit_of_fallback by blast
    with h show "limit_of data =
          Number (if plan_of data = ''free'' then 50
                  else if plan_of data = ''pro'' then 5000
                  else if plan_of data = ''enterprise'' then 100000
                  else 50)"
      using fallback_own by simp
  qed
  have e1: "limit data = Some 200 \<longrightarrow> limit_of data = Number 200"
    by (simp add: limit_of_supplied)
  have e2: "limit data = None \<and> plan data = Some ''pro'' \<longrightarrow> limit_of data = Number 5000"
    by (simp add: limit_of_def or_opt_def truthy_limit_def plan_of_def or_str_def
        DEFAULT_LIMITS_def or_limit_def)
  have e3: "limit data = None \<and> plan data = None \<longrightarrow> limit_of data = Number 50"
    by (simp add: limit_of_def or_opt_def truthy_limit_def plan_of_def or_str_def
        DEFAULT_LIMITS_def or_limit_def)
  show ?thesis
    by (rule conjI [OF shown conjI [OF supplied conjI [OF fallback conjI [OF e1 conjI [OF e2 e3]]]]])
qed

theorem limit_resolution_witness:
  "requestsLimit (updateDashboardUI (no_fields\<lparr>limit := Some 200\<rparr>) sample_page) = LocaleNum 200
   \<and> limit_of (no_fields\<lparr>plan := Some ''pro''\<rparr>) = Number 5000
   \<and> limit_of no_fields = Number 50
   \<and> limit_of (no_fields\<lparr>limit := Some 0, plan := Some ''enterprise''\<rparr>) = Number 100000
   \<and> limit_of (no_fields\<lparr>plan := Some ''team''\<rparr>) = Number 50"
proof -
  have a: "requestsLimit (updateDashboardUI (no_fields\<lparr>limit := Some 200\<rparr>) sample_page) = LocaleNum 200"
    using limit_resolution [of "no_fields\<lparr>limit := Some 200\<rparr>" sample_page]
    by (simp add: limit_text_def)
  have b: "limit_of (no_fields\<lparr>plan := Some ''pro''\<rparr>) = Number 5000"
    using limit_resolution [of "no_fields\<lparr>plan := Some ''pro''\<rparr>" sample_page]
    by (simp add: no_fields_eval)
  have c: "limit_of no_fields = Number 50"
    using limit_resolution [of no_fields sample_page] by (simp add: no_fields_eval)
  have d: "limit_of (no_fields\<lparr>limit := Some 0, plan := Some ''enterprise''\<rparr>) = Number 100000"
    using limit_resolution [of "no_fields\<lparr>limit := Some 0, plan := Some ''enterprise''\<rparr>" sample_page]
    by (simp add: plan_of_cases Object_prototype_names_def)
  have e: "limit_of (no_fields\<lparr>plan := Some ''team''\<rparr>) = Number 50"
    using limit_resolution [of "no_fields\<lparr>plan := Some ''team''\<rparr>" sample_page]
    by (simp add: plan_of_cases Object_prototype_names_def no_fields_eval)
  show ?thesis
    by (rule conjI [OF a conjI [OF b conjI [OF c conjI [OF d e]]]])
qed




section \<open>The usage bar\<close>

text \<open>
  C5: for \<open>used \<ge> 0\<close> and \<open>limit > 0\<close> the percentage computed by
  \<open>updateDashboardUI\<close>, and with it the width of the usage bar, is
  \<open>min (used / limit * 100) 100\<close>; it lies between 0 and 100 also when
  \<open>used > limit\<close>, and the bar is red exactly when the percentage is above 90.
\<close>

theorem usage_bar_clamped:
  assumes "0 \<le> used_of data" and "limit_of data = Number l" and "0 < l"
  shows "percentage_of data = Finite (min (used_of data / l * 100) 100)
    \<and> usageBar_width (updateDashboardUI data p) = min (used_of data / l * 100) 100
    \<and> 0 \<le> usageBar_width (updateDashboardUI data p)
    \<and> usageBar_width (updateDashboardUI data p) \<le> 100
    \<and> (''bg-red-500'' \<in> set (usageBar_classList (updateDashboardUI data p))
          \<longleftrightarrow> usageBar_width (updateDashboardUI data p) > 90)
    \<and> (''bg-indigo-600'' \<in> set (usageBar_classList (updateDashboardUI data p))
          \<longleftrightarrow> \<not> usageBar_width (updateDashboardUI data p) > 90)"
proof -
  have nonneg: "0 \<le> used_of data / l * 100"
    using assms by simp
  have pct: "percentage_of data = Finite (min (used_of data / l * 100) 100)"
    using assms(2,3)
    by (simp add: percentage_of_def to_number_def js_div_def times_100_def min_100_def)
  have w: "usageBar_width (updateDashboardUI data p) = min (used_of data / l * 100) 100"
    using nonneg by (simp add: updateDashboardUI_display pct set_width_def)
  have cls: "usageBar_classList (updateDashboardUI data p) =
     (if min (used_of data / l * 100) 100 > 90
      then classList_add [''bg-red-500''] (classList_remove [''bg-indigo-600''] (usageBar_classList p))
      else classList_remove [''bg-red-500''] (classList_add [''bg-indigo-600''] (usageBar_classList p)))"
    by (simp add: updateDashboardUI_display pct above_90_def)
  show ?thesis
    using nonneg unfolding cls w pct
    by (simp add: classList_add_one classList_remove_one)
qed

theorem usage_bar_clamped_witness:
  "0 \<le> used_of (no_fields\<lparr>requests_this_month := Some 60\<rparr>)
   \<and> limit_of (no_fields\<lparr>requests_this_month := Some 60\<rparr>) = Number 50
   \<and> used_of (no_fields\<lparr>requests_this_month := Some 60\<rparr>) > 50
   \<and> usageBar_width (updateDashboardUI (no_fields\<lparr>requests_this_month := Some 60\<rparr>) sample_page) = 100
   \<and> ''bg-red-500'' \<in> set (usageBar_classList
        (updateDashboardUI (no_fields\<lparr>requests_this_month := Some 60\<rparr>) sample_page))"
proof -
  have u: "used_of (no_fields\<lparr>requests_this_month := Some 60\<rparr>) = 60"
    by (simp add: used_of_def or_num_def)
  have l: "limit_of (no_fields\<lparr>requests_this_month := Some 60\<rparr>) = Number 50"
    by (simp add: limit_of_def plan_of_cases or_limit_def or_opt_def truthy_limit_def
        DEFAULT_LIMITS_def no_fields_eval)
  have h1: "0 \<le> used_of (no_fields\<lparr>requests_this_month := Some 60\<rparr>)" using u by simp
  have h3: "(0::real) < 50" by simp
  show ?thesis
    using usage_bar_clamped [OF h1 l h3, of sample_page] u l by simp
qed

section \<open>The file-size guard\<close>

text \<open>
  C8: a file of \<open>10*1024*1024 + 1\<close> bytes or more is rejected by \<open>handleFileSelection\<close>
  with an error toast, no request is issued and the current selection stays as it was
  (none, when the runner was idle); a file of exactly \<open>10*1024*1024\<close> bytes becomes the
  selected file.
\<close>

theorem file_size_guard:
  "(MAX_FILE_SIZE + 1 \<le> file_size f \<longrightarrow>
      handleFileSelection (Some f) loaded p = showToast (Lit ''File too large. Max 10MB.'') ''error'' p
      \<and> toasts (handleFileSelection (Some f) loaded p) =
          toasts p @ [\<lparr>toast_message = Lit ''File too large. Max 10MB.'',
                       toast_border = ''border-red-500'', toast_text = ''text-red-800''\<rparr>]
      \<and> requests (handleFileSelection (Some f) loaded p) = requests p
      \<and> currentSelectedFile (handleFileSelection (Some f) loaded p) = currentSelectedFile p)
   \<and> (file_size f = MAX_FILE_SIZE \<longrightarrow>
      currentSelectedFile (handleFileSelection (Some f) loaded p) = Some f
      \<and> toasts (handleFileSelection (Some f) loaded p) = toasts p
      \<and> requests (handleFileSelection (Some f) loaded p) = requests p)
   \<and> MAX_FILE_SIZE = 10 * 1024 * 1024"
  by (cases loaded)
     (simp_all add: handleFileSelection_def showToast_def Let_def preview_onload_keeps
        MAX_FILE_SIZE_def)

theorem file_size_guard_witness:
  "currentSelectedFile sample_page = None
   \<and> currentSelectedFile (handleFileSelection (Some \<lparr>file_size = 10485761, file_type = ''image/png''\<rparr>)
        (Some ''data:image/png;base64,AAAA'') sample_page) = None
   \<and> requests (handleFileSelection (Some \<lparr>file_size = 10485761, file_type = ''image/png''\<rparr>)
        (Some ''data:image/png;base64,AAAA'') sample_page) = []
   \<and> length (toasts (handleFileSelection (Some \<lparr>file_size = 10485761, file_type = ''image/png''\<rparr>)
        (Some ''data:image/png;base64,AAAA'') sample_page)) = 1
   \<and> currentSelectedFile (handleFileSelection (Some \<lparr>file_size = 10485760, file_type = ''image/png''\<rparr>)
        (Some ''data:image/png;base64,AAAA'') sample_page)
       = Some \<lparr>file_size = 10485760, file_type = ''image/png''\<rparr>"
proof -
  have s: "currentSelectedFile sample_page = None" "requests sample_page = []"
    "toasts sample_page = []"
    by (simp_all add: sample_page_def)
  show ?thesis
    using file_size_guard [of "\<lparr>file_size = 10485761, file_type = ''image/png''\<rparr>"
            "Some ''data:image/png;base64,AAAA''" sample_page]
          file_size_guard [of "\<lparr>file_size = 10485760, file_type = ''image/png''\<rparr>"
            "Some ''data:image/png;base64,AAAA''" sample_page]
    by (simp add: MAX_FILE_SIZE_def s showToast_def)
qed

section \<open>Which handlers issue the rotation request\<close>

lemma fetch_requests: "requests (fetch r p) = requests p @ [r]"
  by (simp add: fetch_def)

lemma fetch_keeps:
  "localStorage (fetch r p) = localStorage p"
  "console (fetch r p) = console p"
  "toasts (fetch r p) = toasts p"
  "currentUser (fetch r p) = currentUser p"
  "currentSelectedFile (fetch r p) = currentSelectedFile p"
  by (simp_all add: fetch_def)

lemma catch_snd: "(\<And>e q. P (h e q) = P q) \<Longrightarrow> P (catch h out) = P (snd out)"
  by (cases out) (simp add: catch_def split: option.splits)

lemma rotations_simps:
  "rotations (fetch (GetKey t) p) = rotations p"
  "rotations (fetch (Signup t em pl) p) = rotations p"
  "rotations (fetch (CreateCheckout pl t) p) = rotations p"
  "rotations (fetch (CreatePortal t) p) = rotations p"
  "rotations (fetch (Extract k b m d) p) = rotations p"
  "rotations (fetch (RegenerateKey t) p) = rotations p @ [RegenerateKey t]"
  "rotations (showToast msg ty p) = rotations p"
  "rotations (console_error e p) = rotations p"
  "rotations (revealNewKey data p) = rotations p"
  "rotations (updateDashboardUI data p) = rotations p"
  "rotations (p\<lparr>location_href := l\<rparr>) = rotations p"
  "rotations (p\<lparr>activeElement := a\<rparr>) = rotations p"
  by (simp_all add: rotations_def fetch_requests showToast_keeps console_error_def
      revealNewKey_display updateDashboardUI_keeps)

lemma createNewKey_rotations:
  "rotations (snd (createNewKey t em res p)) = rotations p"
  by (simp add: createNewKey_def Let_def rotations_simps split: sum.splits json_value.splits)

lemma getOrCreateAPIKey_rotations: "rotations (getOrCreateAPIKey u r1 r2 p) = rotations p"
proof -
  have "rotations (getOrCreateAPIKey u r1 r2 p) = rotations (snd (getOrCreateAPIKey_try u r1 r2 p))"
    unfolding getOrCreateAPIKey_def by (rule catch_snd) (simp add: rotations_simps)
  also have "\<dots> = rotations p"
    by (simp add: getOrCreateAPIKey_try_def Let_def createNewKey_rotations rotations_simps
        split: sum.splits json_value.splits)
  finally show ?thesis .
qed

lemma upgradePlan_rotations: "rotations (upgradePlan pl res p) = rotations p"
proof (cases "currentUser p")
  case None
  then show ?thesis by (simp add: upgradePlan_def rotations_simps)
next
  case (Some u)
  then have "rotations (upgradePlan pl res p) = rotations (snd (upgradePlan_try u pl res p))"
    unfolding upgradePlan_def by (simp, intro catch_snd) (simp add: rotations_simps)
  also have "\<dots> = rotations p"
    by (simp add: upgradePlan_try_def Let_def rotations_simps split: sum.splits json_value.splits)
  finally show ?thesis .
qed

lemma openPortal_rotations: "rotations (openPortal res p) = rotations p"
proof -
  have "rotations (openPortal res p) = rotations (snd (openPortal_try res p))"
    unfolding openPortal_def by (rule catch_snd) (simp add: rotations_simps)
  also have "\<dots> = rotations p"
    by (simp add: openPortal_try_def Let_def rotations_simps
        split: sum.splits json_value.splits option.splits)
  finally show ?thesis .
qed

lemma handleFileSelection_rotations: "rotations (handleFileSelection c l p) = rotations p"
  by (simp add: handleFileSelection_def Let_def rotations_def preview_onload_keeps showToast_keeps
      split: option.splits)

lemma triggerExtraction_rotations: "rotations (triggerExtraction l p) = rotations p"
  by (simp add: triggerExtraction_def performApiCall_def Let_def rotations_simps
      split: option.splits) (simp add: rotations_def fetch_requests)

lemma confirmRotate_rotations:
  "rotations (confirmRotate res p) = rotations p
   \<or> (\<exists>t. rotations (confirmRotate res p) = rotations p @ [RegenerateKey t])"
proof -
  have "rotations (confirmRotate res p) = rotations (snd (confirmRotate_try res (closeRotateModal p)))"
    unfolding confirmRotate_def by (rule catch_snd) (simp add: rotations_simps)
  moreover have "rotations (closeRotateModal p) = rotations p"
    by (simp add: rotations_def closeRotateModal_def)
  moreover have "rotations (snd (confirmRotate_try res q)) = rotations q
     \<or> (\<exists>t. rotations (snd (confirmRotate_try res q)) = rotations q @ [RegenerateKey t])" for q
    by (simp add: confirmRotate_try_def Let_def rotations_simps
        split: sum.splits json_value.splits option.splits)
  ultimately show ?thesis by metis
qed

lemma step_rotations:
  "\<not> is_confirmRotate e \<Longrightarrow> rotations (step e p) = rotations p"
proof (cases e)
  case (Ev_click h r)
  then show ?thesis by (cases h) (simp_all add: upgradePlan_rotations openPortal_rotations)
qed (simp_all add: getOrCreateAPIKey_rotations handleFileSelection_rotations
      triggerExtraction_rotations, simp_all add: rotations_def signOut_def rotateKey_def closeRotateModal_def)

lemma step_rotations_le:
  "length (rotations (step e p)) \<le> length (rotations p) + (if is_confirmRotate e then 1 else 0)"
proof (cases "is_confirmRotate e")
  case True
  then obtain r where "e = Ev_confirmRotate r" by (cases e) simp_all
  then show ?thesis using confirmRotate_rotations [of r p] by auto
next
  case False
  then show ?thesis by (simp add: step_rotations)
qed

lemma run_rotations:
  "\<forall>e\<in>set es. \<not> is_confirmRotate e \<Longrightarrow> rotations (run es p) = rotations p"
  unfolding run_def by (induction es arbitrary: p) (simp_all add: step_rotations)

lemma run_rotations_le:
  "length (rotations (run es p)) \<le> length (rotations p) + length (filter is_confirmRotate es)"
  unfolding run_def
proof (induction es arbitrary: p)
  case Nil
  then show ?case by simp
next
  case (Cons e es)
  have "length (rotations (fold step es (step e p))) \<le> length (rotations (step e p)) + length (filter is_confirmRotate es)"
    by (rule Cons.IH)
  also have "\<dots> \<le> length (rotations p) + (if is_confirmRotate e then 1 else 0) + length (filter is_confirmRotate es)"
    using step_rotations_le [of e p] by simp
  finally show ?case by (simp split: if_splits)
qed

section \<open>Which handlers write the stored key\<close>

lemma storage_simps:
  "localStorage (fetch r p) k = localStorage p k"
  "localStorage (showToast msg ty p) k = localStorage p k"
  "localStorage (console_error e p) k = localStorage p k"
  "localStorage (updateDashboardUI data p) k = localStorage p k"
  "localStorage (p\<lparr>location_href := l\<rparr>) k = localStorage p k"
  "localStorage (p\<lparr>activeElement := a\<rparr>) k = localStorage p k"
  "localStorage (closeRotateModal p) k = localStorage p k"
  "localStorage (rotateKey p) k = localStorage p k"
  by (simp_all add: fetch_keeps showToast_keeps console_error_def updateDashboardUI_keeps
      closeRotateModal_def rotateKey_def)

lemma revealNewKey_storage:
  "k \<noteq> ''receiptApiKey'' \<Longrightarrow> localStorage (revealNewKey data p) k = localStorage p k"
  by (simp add: revealNewKey_display)

lemma createNewKey_storage:
  "k \<noteq> ''receiptApiKey'' \<Longrightarrow> localStorage (snd (createNewKey t em res p)) k = localStorage p k"
  by (simp add: createNewKey_def Let_def storage_simps revealNewKey_storage
      split: sum.splits json_value.splits)

lemma getOrCreateAPIKey_storage:
  assumes "k \<noteq> ''receiptApiKey''"
  shows "localStorage (getOrCreateAPIKey u r1 r2 p) k = localStorage p k"
proof -
  have "localStorage (getOrCreateAPIKey u r1 r2 p) k
      = localStorage (snd (getOrCreateAPIKey_try u r1 r2 p)) k"
    unfolding getOrCreateAPIKey_def
    by (rule catch_snd [where P = "\<lambda>q. localStorage q k"]) (simp add: storage_simps)
  also have "\<dots> = localStorage p k"
    using assms
    by (simp add: getOrCreateAPIKey_try_def Let_def createNewKey_storage storage_simps
        split: sum.splits json_value.splits)
  finally show ?thesis .
qed

lemma upgradePlan_storage: "localStorage (upgradePlan pl res p) k = localStorage p k"
proof (cases "currentUser p")
  case None
  then show ?thesis by (simp add: upgradePlan_def storage_simps)
next
  case (Some u)
  then have "localStorage (upgradePlan pl res p) k = localStorage (snd (upgradePlan_try u pl res p)) k"
    unfolding upgradePlan_def
    by (simp, intro catch_snd [where P = "\<lambda>q. localStorage q k"]) (simp add: storage_simps)
  also have "\<dots> = localStorage p k"
    by (simp add: upgradePlan_try_def Let_def storage_simps split: sum.splits json_value.splits)
  finally show ?thesis .
qed

lemma openPortal_storage: "localStorage (openPortal res p) k = localStorage p k"
proof -
  have "localStorage (openPortal res p) k = localStorage (snd (openPortal_try res p)) k"
    unfolding openPortal_def
    by (rule catch_snd [where P = "\<lambda>q. localStorage q k"]) (simp add: storage_simps)
  also have "\<dots> = localStorage p k"
    by (simp add: openPortal_try_def Let_def storage_simps
        split: sum.splits json_value.splits option.splits)
  finally show ?thesis .
qed

lemma handleFileSelection_storage: "localStorage (handleFileSelection c l p) k = localStorage p k"
  by (simp add: handleFileSelection_def Let_def preview_onload_keeps showToast_keeps
      split: option.splits)

lemma triggerExtraction_storage: "localStorage (triggerExtraction l p) k = localStorage p k"
  by (simp add: triggerExtraction_def performApiCall_def Let_def storage_simps
      split: option.splits)

lemma confirmRotate_storage:
  assumes "k \<noteq> ''receiptApiKey''"
  shows "localStorage (confirmRotate res p) k = localStorage p k"
proof -
  have "localStorage (confirmRotate res p) k
      = localStorage (snd (confirmRotate_try res (closeRotateModal p))) k"
    unfolding confirmRotate_def
    by (rule catch_snd [where P = "\<lambda>q. localStorage q k"]) (simp add: storage_simps)
  also have "\<dots> = localStorage (closeRotateModal p) k"
    using assms
    by (simp add: confirmRotate_try_def Let_def storage_simps revealNewKey_storage
        split: sum.splits json_value.splits option.splits)
  finally show ?thesis by (simp add: storage_simps)
qed

lemma step_storage:
  assumes "k \<noteq> ''receiptApiKey''"
  shows "localStorage (step e p) k = localStorage p k"
proof (cases e)
  case (Ev_click h r)
  then show ?thesis by (cases h) (simp_all add: upgradePlan_storage openPortal_storage)
next
  case Ev_signOut
  then show ?thesis using assms by (simp add: signOut_def)
qed (simp_all add: getOrCreateAPIKey_storage confirmRotate_storage assms
      handleFileSelection_storage triggerExtraction_storage storage_simps)

lemma run_storage:
  "k \<noteq> ''receiptApiKey'' \<Longrightarrow> localStorage (run es p) k = localStorage p k"
  unfolding run_def by (induction es arbitrary: p) (simp_all add: step_storage)

section \<open>The model on concrete inputs\<close>

lemma sample_eval:
  "currentUser sample_page = Some sample_user"
  "requests sample_page = []"
  "localStorage sample_page = Map.empty"
  "toasts sample_page = []"
  "console sample_page = []"
  "rotateModal_classList sample_page = [''hidden'']"
  "getIdToken sample_user = Inr ''tok''"
  "email sample_user = ''a@b.c''"
  by (simp_all add: sample_page_def sample_user_def)

lemma with_key_eval:
  "json with_key = Inr (JsonObject (no_fields\<lparr>key := Some ''sk_live_1''\<rparr>))"
  "ok with_key"
  "status with_key = 200"
  by (simp_all add: with_key_def json_def ok_def)

lemma not_found_eval:
  "json not_found = Inr (JsonObject (no_fields\<lparr>detail := Some ''No key''\<rparr>))"
  "\<not> ok not_found"
  "status not_found = 404"
  by (simp_all add: not_found_def json_def ok_def)

lemma created_run:
  "localStorage (getOrCreateAPIKey sample_user (Inr not_found) (Inr with_key) sample_page)
     ''receiptApiKey'' = Some ''sk_live_1''"
  by (simp add: getOrCreateAPIKey_def getOrCreateAPIKey_try_def createNewKey_def Let_def
      sample_eval with_key_eval not_found_eval catch_def revealNewKey_display fetch_keeps
      truthy_str_def to_dom_string_def)

section \<open>Sign-out\<close>

text \<open>
  C10: \<open>signOut\<close> always removes the entry \<open>receiptApiKey\<close> from local storage. That
  entry is the only one a handler ever writes the full key to, so after any run of the
  page followed by a sign-out the storage is what it was at the start, without the key.
\<close>

theorem signOut_clears_stored_key:
  "localStorage (signOut p) ''receiptApiKey'' = None
   \<and> localStorage (signOut (run es p)) = (localStorage p)(''receiptApiKey'' := None)"
proof -
  have "localStorage (signOut (run es p)) k = ((localStorage p)(''receiptApiKey'' := None)) k" for k
    by (cases "k = ''receiptApiKey''") (simp_all add: signOut_def run_storage)
  then have "localStorage (signOut (run es p)) = (localStorage p)(''receiptApiKey'' := None)"
    by (rule ext)
  then show ?thesis by (simp add: signOut_def)
qed

theorem signOut_clears_stored_key_witness:
  "localStorage (run [Ev_getOrCreateAPIKey sample_user (Inr not_found) (Inr with_key)] sample_page)
     ''receiptApiKey'' = Some ''sk_live_1''
   \<and> localStorage
        (signOut (run [Ev_getOrCreateAPIKey sample_user (Inr not_found) (Inr with_key)] sample_page))
        ''receiptApiKey'' = None"
  using signOut_clears_stored_key
    [of sample_page "[Ev_getOrCreateAPIKey sample_user (Inr not_found) (Inr with_key)]"]
  by (simp add: run_def created_run)

section \<open>Key rotation\<close>

text \<open>
  C7: the call to the regenerate-key endpoint is never made before the confirmation:
  \<open>rotateKey\<close> only opens the prompt and issues nothing, a run of the page without a
  \<open>confirmRotate\<close> issues no rotation request, every rotation request of a run is
  issued by one of its \<open>confirmRotate\<close> events, and \<open>confirmRotate\<close> for a signed-in
  user does issue it.
\<close>

theorem rotation_needs_confirmation:
  "rotateKey p = p\<lparr>rotateModal_classList := classList_remove [''hidden''] (rotateModal_classList p)\<rparr>
   \<and> \<not> hidden (rotateModal_classList (rotateKey p))
   \<and> requests (rotateKey p) = requests p
   \<and> ((\<forall>e\<in>set es. \<not> is_confirmRotate e) \<longrightarrow> rotations (run es p) = rotations p)
   \<and> length (rotations (run es p)) \<le> length (rotations p) + length (filter is_confirmRotate es)
   \<and> (currentUser p = Some u \<and> getIdToken u = Inr idToken \<longrightarrow>
        rotations (confirmRotate res p) = rotations p @ [RegenerateKey idToken])"
proof -
  have a: "currentUser p = Some u \<and> getIdToken u = Inr idToken \<longrightarrow>
        rotations (confirmRotate res p) = rotations p @ [RegenerateKey idToken]"
    by (simp add: confirmRotate_def confirmRotate_try_def closeRotateModal_def Let_def catch_def
        rotations_simps split: sum.splits json_value.splits)
       (simp add: rotations_def)
  show ?thesis
    using a
    by (simp add: rotateKey_def hidden_def classList_remove_one run_rotations run_rotations_le)
qed

theorem rotation_needs_confirmation_witness:
  "rotations (run [Ev_rotateKey, Ev_closeRotateModal, Ev_rotateKey] sample_page) = []
   \<and> \<not> hidden (rotateModal_classList (rotateKey sample_page))
   \<and> rotations (confirmRotate (Inr with_key) sample_page) = [RegenerateKey ''tok'']"
proof -
  have r: "rotations sample_page = []" by (simp add: rotations_def sample_eval)
  show ?thesis
    using rotation_needs_confirmation
            [of sample_page "[Ev_rotateKey, Ev_closeRotateModal, Ev_rotateKey]" sample_user "''tok''"
                "Inr with_key"]
    by (simp add: r sample_eval hidden_def classList_remove_def)
qed

section \<open>Revealing a new key\<close>

text \<open>
  C6: when the response to a creation (\<open>createNewKey\<close>) or to a rotation
  (\<open>confirmRotate\<close>) contains the key, \<open>revealNewKey\<close> is run on it: the key display
  holds the full key, the usage count shown is 0 and the usage bar is at 0, and the full
  key is stored in local storage under \<open>receiptApiKey\<close>.
\<close>

theorem reveal_on_success:
  assumes "res = Inr r" and "body r = Some (JsonObject data)" and "key data = Some k" and "k \<noteq> []"
  shows "createNewKey idToken em res p = (None, revealNewKey data (fetch (Signup idToken em ''free'') p))
    \<and> (currentUser p = Some u \<and> getIdToken u = Inr idToken \<longrightarrow>
         confirmRotate res p =
           showToast (Lit ''Key Rotated Successfully'') ''success''
             (revealNewKey data (fetch (RegenerateKey idToken) (closeRotateModal p))))
    \<and> (\<forall>q. apiKeyDisplay_value (revealNewKey data q) = k
           \<and> requestCount (revealNewKey data q) = Lit ''0''
           \<and> usageBar_width (revealNewKey data q) = 0
           \<and> localStorage (revealNewKey data q) ''receiptApiKey'' = Some k
           \<and> apiKeyDisplay_value (showToast (Lit ''Key Rotated Successfully'') ''success'' (revealNewKey data q)) = k
           \<and> requestCount (showToast (Lit ''Key Rotated Successfully'') ''success'' (revealNewKey data q)) = Lit ''0''
           \<and> usageBar_width (showToast (Lit ''Key Rotated Successfully'') ''success'' (revealNewKey data q)) = 0
           \<and> localStorage (showToast (Lit ''Key Rotated Successfully'') ''success'' (revealNewKey data q))
                ''receiptApiKey'' = Some k)"
proof -
  have t: "truthy_str (key data)" using assms by (simp add: truthy_str_def)
  have j: "json r = Inr (JsonObject data)" using assms by (simp add: json_def)
  have c: "createNewKey idToken em res p = (None, revealNewKey data (fetch (Signup idToken em ''free'') p))"
    using assms(1) t j by (simp add: createNewKey_def Let_def)
  have r: "currentUser p = Some u \<and> getIdToken u = Inr idToken \<longrightarrow>
         confirmRotate res p =
           showToast (Lit ''Key Rotated Successfully'') ''success''
             (revealNewKey data (fetch (RegenerateKey idToken) (closeRotateModal p)))"
    using assms(1) t j
    by (simp add: confirmRotate_def confirmRotate_try_def closeRotateModal_def catch_def Let_def)
  have d: "to_dom_string (key data) = k" using assms by (simp add: to_dom_string_def)
  show ?thesis using c r d by (simp add: revealNewKey_display showToast_keeps)
qed


theorem reveal_on_success_witness:
  "body with_key = Some (JsonObject (no_fields\<lparr>key := Some ''sk_live_1''\<rparr>))
   \<and> apiKeyDisplay_value (snd (createNewKey ''tok'' ''a@b.c'' (Inr with_key) sample_page)) = ''sk_live_1''
   \<and> requestCount (snd (createNewKey ''tok'' ''a@b.c'' (Inr with_key) sample_page)) = Lit ''0''
   \<and> usageBar_width (snd (createNewKey ''tok'' ''a@b.c'' (Inr with_key) sample_page)) = 0
   \<and> localStorage (snd (createNewKey ''tok'' ''a@b.c'' (Inr with_key) sample_page)) ''receiptApiKey''
       = Some ''sk_live_1''
   \<and> apiKeyDisplay_value (confirmRotate (Inr with_key) sample_page) = ''sk_live_1''
   \<and> requestCount (confirmRotate (Inr with_key) sample_page) = Lit ''0''
   \<and> usageBar_width (confirmRotate (Inr with_key) sample_page) = 0
   \<and> localStorage (confirmRotate (Inr with_key) sample_page) ''receiptApiKey'' = Some ''sk_live_1''"
proof -
  have b: "body with_key = Some (JsonObject (no_fields\<lparr>key := Some ''sk_live_1''\<rparr>))"
    by (simp add: with_key_def)
  have k: "key (no_fields\<lparr>key := Some ''sk_live_1''\<rparr>) = Some ''sk_live_1''"
    by simp
  have n: "''sk_live_1'' \<noteq> []"
    by simp
  show ?thesis
    using reveal_on_success [OF refl b k n, where idToken = "''tok''" and em = "''a@b.c''"
        and p = sample_page and u = sample_user] b
    by (simp add: sample_eval)
qed

section \<open>The plan cards\<close>

lemma levels:
  "PLAN_LEVELS ''free'' = Some 0" "PLAN_LEVELS ''pro'' = Some 1" "PLAN_LEVELS ''enterprise'' = Some 2"
  by (simp_all add: PLAN_LEVELS_def)

lemma details:
  "PLAN_DETAILS ''free'' \<noteq> None" "PLAN_DETAILS ''pro'' \<noteq> None" "PLAN_DETAILS ''enterprise'' \<noteq> None"
  by (simp_all add: PLAN_DETAILS_def)

lemma render_card_marking:
  assumes "planCard p n \<noteq> None" and "PLAN_DETAILS n \<noteq> None"
  shows "marking (render_card cp lv n p) m =
     (if m = n then
        Some (if n = cp then Current
              else if js_lt (PLAN_LEVELS n) lv then Downgrade OpenPortal
              else Upgrade (UpgradePlan n) (btnClass n))
      else marking p m)"
  using assms by (auto simp add: render_card_def marking_def Let_def)

lemma render_card_present:
  "planCard p m \<noteq> None \<Longrightarrow> planCard (render_card cp lv n p) m \<noteq> None"
  by (auto simp add: render_card_def Let_def split: option.splits)

lemma render_card_manage:
  "manageSubBtn_classList (render_card cp lv n p) = manageSubBtn_classList p"
  using render_card_frame [of cp lv n p] by auto

lemma updatePlanCards_marking:
  assumes "planCard p ''free'' \<noteq> None" "planCard p ''pro'' \<noteq> None" "planCard p ''enterprise'' \<noteq> None"
    and "cp \<noteq> []" and "n \<in> {''free'', ''pro'', ''enterprise''}"
  shows "marking (updatePlanCards cp p) n =
     Some (if n = cp then Current
           else if js_lt (PLAN_LEVELS n) (PLAN_LEVELS cp) then Downgrade OpenPortal
           else Upgrade (UpgradePlan n) (btnClass n))"
proof -
  define p1 where "p1 = (if js_gt (PLAN_LEVELS cp) (Some 0)
                then p\<lparr>manageSubBtn_classList :=
                         classList_remove [''hidden''] (manageSubBtn_classList p)\<rparr>
                else p\<lparr>manageSubBtn_classList :=
                         classList_add [''hidden''] (manageSubBtn_classList p)\<rparr>)"
  define p2 where "p2 = render_card cp (PLAN_LEVELS cp) ''free'' p1"
  define p3 where "p3 = render_card cp (PLAN_LEVELS cp) ''pro'' p2"
  have u: "updatePlanCards cp p = render_card cp (PLAN_LEVELS cp) ''enterprise'' p3"
    using assms(4) by (simp add: updatePlanCards_def Let_def p1_def p2_def p3_def)
  have c1: "planCard p1 ''free'' \<noteq> None" "planCard p1 ''pro'' \<noteq> None" "planCard p1 ''enterprise'' \<noteq> None"
    using assms(1-3) by (simp_all add: p1_def)
  have c2: "planCard p2 ''pro'' \<noteq> None" "planCard p2 ''enterprise'' \<noteq> None"
    using c1 by (simp_all add: p2_def render_card_present)
  have c3: "planCard p3 ''enterprise'' \<noteq> None"
    using c2 by (simp add: p3_def render_card_present)
  have m2: "marking p2 ''free'' = Some (if ''free'' = cp then Current
           else if js_lt (PLAN_LEVELS ''free'') (PLAN_LEVELS cp) then Downgrade OpenPortal
           else Upgrade (UpgradePlan ''free'') (btnClass ''free''))"
    unfolding p2_def by (simp add: render_card_marking [OF c1(1) details(1)])
  have m3: "marking p3 m = (if m = ''pro'' then Some (if ''pro'' = cp then Current
           else if js_lt (PLAN_LEVELS ''pro'') (PLAN_LEVELS cp) then Downgrade OpenPortal
           else Upgrade (UpgradePlan ''pro'') (btnClass ''pro'')) else marking p2 m)" for m
    unfolding p3_def by (simp add: render_card_marking [OF c2(1) details(2)] )
  have m4: "marking (updatePlanCards cp p) m = (if m = ''enterprise'' then Some (if ''enterprise'' = cp then Current
           else if js_lt (PLAN_LEVELS ''enterprise'') (PLAN_LEVELS cp) then Downgrade OpenPortal
           else Upgrade (UpgradePlan ''enterprise'') (btnClass ''enterprise'')) else marking p3 m)" for m
    unfolding u by (simp add: render_card_marking [OF c3 details(3)] )
  show ?thesis
  proof -
    have "n = ''free'' \<or> n = ''pro'' \<or> n = ''enterprise''" using assms(5) by simp
    then show ?thesis by (elim disjE) (simp_all add: m4 m3 m2)
  qed
qed

lemma updatePlanCards_manage:
  assumes "cp \<noteq> []"
  shows "hidden (manageSubBtn_classList (updatePlanCards cp p)) \<longleftrightarrow> \<not> js_gt (PLAN_LEVELS cp) (Some 0)"
proof -
  define p1 where "p1 = (if js_gt (PLAN_LEVELS cp) (Some 0)
                then p\<lparr>manageSubBtn_classList :=
                         classList_remove [''hidden''] (manageSubBtn_classList p)\<rparr>
                else p\<lparr>manageSubBtn_classList :=
                         classList_add [''hidden''] (manageSubBtn_classList p)\<rparr>)"
  have u: "updatePlanCards cp p = fold (render_card cp (PLAN_LEVELS cp)) [''free'', ''pro'', ''enterprise''] p1"
    using assms by (simp add: updatePlanCards_def Let_def p1_def)
  obtain pc where "updatePlanCards cp p = p1\<lparr>planCard := pc\<rparr>"
    unfolding u using fold_render_card_frame by blast
  then have "manageSubBtn_classList (updatePlanCards cp p) = manageSubBtn_classList p1"
    by simp
  then show ?thesis
    by (simp add: p1_def hidden_def classList_add_one classList_remove_one)
qed

lemma openPortal_requests:
  "currentUser q = Some u \<Longrightarrow> getIdToken u = Inr t \<Longrightarrow>
     requests (openPortal res q) = requests q @ [CreatePortal t]"
  by (simp add: openPortal_def openPortal_try_def catch_def Let_def fetch_requests showToast_keeps
      split: sum.splits json_value.splits)

lemma upgradePlan_requests:
  "currentUser q = Some u \<Longrightarrow> getIdToken u = Inr t \<Longrightarrow>
     requests (upgradePlan n res q) = requests q @ [CreateCheckout n t]"
  by (simp add: upgradePlan_def upgradePlan_try_def catch_def Let_def fetch_requests showToast_keeps
      split: sum.splits json_value.splits)

text \<open>
  C4: for a current plan among free, pro and enterprise, and a page that has the three
  cards, \<open>updatePlanCards\<close> marks the card of the current plan as current (a badge,
  no button), every card of lower order as downgrade (its button opens the billing
  portal), every card of higher order as upgrade (its button requests a checkout for
  that tier); exactly one of the three cards is current; and the manage-subscription
  button is visible exactly when the order of the current plan is above that of free.
\<close>

theorem plan_cards_marked:
  assumes "cp \<in> {''free'', ''pro'', ''enterprise''}"
    and "\<forall>n\<in>{''free'', ''pro'', ''enterprise''}. planCard p n \<noteq> None"
  shows "(\<forall>n\<in>{''free'', ''pro'', ''enterprise''}.
            (n = cp \<longrightarrow> marking (updatePlanCards cp p) n = Some Current)
          \<and> (js_lt (PLAN_LEVELS n) (PLAN_LEVELS cp) \<longrightarrow>
                marking (updatePlanCards cp p) n = Some (Downgrade OpenPortal))
          \<and> (js_gt (PLAN_LEVELS n) (PLAN_LEVELS cp) \<longrightarrow>
                marking (updatePlanCards cp p) n = Some (Upgrade (UpgradePlan n) (btnClass n)))
          \<and> (n = cp \<or> js_lt (PLAN_LEVELS n) (PLAN_LEVELS cp) \<or> js_gt (PLAN_LEVELS n) (PLAN_LEVELS cp)))
    \<and> filter (\<lambda>n. marking (updatePlanCards cp p) n = Some Current) [''free'', ''pro'', ''enterprise'']
        = [cp]
    \<and> (\<not> hidden (manageSubBtn_classList (updatePlanCards cp p))
          \<longleftrightarrow> js_gt (PLAN_LEVELS cp) (PLAN_LEVELS ''free''))
    \<and> (currentUser q = Some u \<and> getIdToken u = Inr t \<longrightarrow>
           requests (click OpenPortal res q) = requests q @ [CreatePortal t]
         \<and> requests (click (UpgradePlan tier) res q) = requests q @ [CreateCheckout tier t])"
proof -
  have present: "planCard p ''free'' \<noteq> None" "planCard p ''pro'' \<noteq> None"
    "planCard p ''enterprise'' \<noteq> None"
    using assms(2) by simp_all
  have ne: "cp \<noteq> []" using assms(1) by auto
  have M: "marking (updatePlanCards cp p) n =
     Some (if n = cp then Current
           else if js_lt (PLAN_LEVELS n) (PLAN_LEVELS cp) then Downgrade OpenPortal
           else Upgrade (UpgradePlan n) (btnClass n))"
    if "n \<in> {''free'', ''pro'', ''enterprise''}" for n
    using updatePlanCards_marking [OF present ne that] .
  have Mf: "marking (updatePlanCards cp p) ''free'' =
     Some (if ''free'' = cp then Current
           else if js_lt (PLAN_LEVELS ''free'') (PLAN_LEVELS cp) then Downgrade OpenPortal
           else Upgrade (UpgradePlan ''free'') (btnClass ''free''))"
    by (rule M) simp
  have Mp: "marking (updatePlanCards cp p) ''pro'' =
     Some (if ''pro'' = cp then Current
           else if js_lt (PLAN_LEVELS ''pro'') (PLAN_LEVELS cp) then Downgrade OpenPortal
           else Upgrade (UpgradePlan ''pro'') (btnClass ''pro''))"
    by (rule M) simp
  have Me: "marking (updatePlanCards cp p) ''enterprise'' =
     Some (if ''enterprise'' = cp then Current
           else if js_lt (PLAN_LEVELS ''enterprise'') (PLAN_LEVELS cp) then Downgrade OpenPortal
           else Upgrade (UpgradePlan ''enterprise'') (btnClass ''enterprise''))"
    by (rule M) simp
  have cases: "cp = ''free'' \<or> cp = ''pro'' \<or> cp = ''enterprise''"
    using assms(1) by simp
  have cards: "\<forall>n\<in>{''free'', ''pro'', ''enterprise''}.
            (n = cp \<longrightarrow> marking (updatePlanCards cp p) n = Some Current)
          \<and> (js_lt (PLAN_LEVELS n) (PLAN_LEVELS cp) \<longrightarrow>
                marking (updatePlanCards cp p) n = Some (Downgrade OpenPortal))
          \<and> (js_gt (PLAN_LEVELS n) (PLAN_LEVELS cp) \<longrightarrow>
                marking (updatePlanCards cp p) n = Some (Upgrade (UpgradePlan n) (btnClass n)))
          \<and> (n = cp \<or> js_lt (PLAN_LEVELS n) (PLAN_LEVELS cp) \<or> js_gt (PLAN_LEVELS n) (PLAN_LEVELS cp))"
    using Mf Mp Me cases by (elim disjE) (simp_all add: levels js_lt_def js_gt_def)
  have one: "filter (\<lambda>n. marking (updatePlanCards cp p) n = Some Current)
        [''free'', ''pro'', ''enterprise''] = [cp]"
    using Mf Mp Me cases by (elim disjE) (simp_all add: levels js_lt_def js_gt_def)
  have manage: "\<not> hidden (manageSubBtn_classList (updatePlanCards cp p))
          \<longleftrightarrow> js_gt (PLAN_LEVELS cp) (PLAN_LEVELS ''free'')"
    by (simp add: updatePlanCards_manage [OF ne] levels)
  have clicks: "currentUser q = Some u \<and> getIdToken u = Inr t \<longrightarrow>
           requests (click OpenPortal res q) = requests q @ [CreatePortal t]
         \<and> requests (click (UpgradePlan tier) res q) = requests q @ [CreateCheckout tier t]"
    by (simp add: openPortal_requests upgradePlan_requests)
  show ?thesis
    using cards one manage clicks by blast
qed

theorem plan_cards_marked_witness:
  "map (marking (updatePlanCards ''pro'' sample_page)) [''free'', ''pro'', ''enterprise'']
     = [Some (Downgrade OpenPortal), Some Current,
        Some (Upgrade (UpgradePlan ''enterprise'') (btnClass ''enterprise''))]
   \<and> \<not> hidden (manageSubBtn_classList (updatePlanCards ''pro'' sample_page))
   \<and> hidden (manageSubBtn_classList (updatePlanCards ''free'' sample_page))
   \<and> requests (click OpenPortal (Inr server_error) sample_page) = [CreatePortal ''tok'']
   \<and> requests (click (UpgradePlan ''enterprise'') (Inr server_error) sample_page)
       = [CreateCheckout ''enterprise'' ''tok'']"
proof -
  have c: "\<forall>n\<in>{''free'', ''pro'', ''enterprise''}. planCard sample_page n \<noteq> None"
    by (simp add: sample_page_def)
  have a: "''pro'' \<in> {''free'', ''pro'', ''enterprise''}" by simp
  have b: "''free'' \<in> {''free'', ''pro'', ''enterprise''}" by simp
  show ?thesis
    using plan_cards_marked [OF a c, where q = sample_page and u = sample_user and t = "''tok''"
            and res = "Inr server_error" and tier = "''enterprise''"]
          plan_cards_marked [OF b c, where q = sample_page and u = sample_user and t = "''tok''"
            and res = "Inr server_error" and tier = "''enterprise''"]
    by (simp add: levels js_lt_def js_gt_def sample_eval)
qed

section \<open>Fetching or creating the key\<close>

lemma createNewKey_requests:
  "requests (snd (createNewKey t em res q)) = requests q @ [Signup t em ''free'']"
  by (simp add: createNewKey_def Let_def fetch_requests revealNewKey_display
      split: sum.splits json_value.splits)

lemma catch_console_requests: "requests (catch console_error out) = requests (snd out)"
  by (rule catch_snd) (simp add: console_error_def)

lemma responses_eval:
  "\<not> ok server_error" "status server_error = 500"
  "json server_error = Inr (JsonObject (no_fields\<lparr>detail := Some ''Oops''\<rparr>))"
  "\<not> ok not_found_html" "status not_found_html = 404" "json not_found_html = Inl SyntaxError"
  "ok with_masked_key" "status with_masked_key = 200"
  "json with_masked_key = Inr (JsonObject (no_fields\<lparr>masked_key := Some ''sk_live_...'', plan := Some ''pro'',
                                 requests_this_month := Some 10\<rparr>))"
  by (simp_all add: server_error_def not_found_html_def with_masked_key_def ok_def json_def)

lemma bodies_eval:
  "body server_error = Some (JsonObject (no_fields\<lparr>detail := Some ''Oops''\<rparr>))"
  "body not_found = Some (JsonObject (no_fields\<lparr>detail := Some ''No key''\<rparr>))"
  "body not_found_html = None"
  "body with_masked_key = Some (JsonObject (no_fields\<lparr>masked_key := Some ''sk_live_...'', plan := Some ''pro'',
                                 requests_this_month := Some 10\<rparr>))"
  by (simp_all add: server_error_def not_found_def not_found_html_def with_masked_key_def)

text \<open>
  C1, as the spec states it: a response that is ok and has a masked key is rendered; a
  response with status 404 makes \<open>createNewKey\<close> run with the plan free; any other
  failure is logged and leaves the dashboard as it is. It fails twice. A response with
  status 500 and a JSON body is a failure that is not logged: \<open>console.error\<close> is only
  reached from the \<open>catch\<close>. And a response with status 404 whose body is not JSON
  never reaches the test of the status, so no signup request follows it.
\<close>

theorem key_fetch_counterexample:
  "\<not> ok server_error \<and> status server_error \<noteq> 404
   \<and> console (getOrCreateAPIKey sample_user (Inr server_error) (Inr with_key) sample_page) = []
   \<and> status not_found_html = 404
   \<and> requests (getOrCreateAPIKey sample_user (Inr not_found_html) (Inr with_key) sample_page)
       = [GetKey ''tok'']"
  by (simp add: getOrCreateAPIKey_def getOrCreateAPIKey_try_def Let_def catch_def responses_eval
      sample_eval fetch_requests fetch_keeps console_error_def)

text \<open>
  C1, amended. When the token is obtained and the body of the response parses as JSON:
  a response that is ok with a non-empty masked key is rendered by
  \<open>updateDashboardUI\<close>; a response with status 404 makes \<open>createNewKey\<close> run, which
  posts the signup with the plan free; any other response changes nothing but the list
  of requests, so nothing is logged, nothing is rendered and no key is created. When the
  token, the \<open>fetch\<close> or the parse of the body fails, or an ok response has the body
  \<open>null\<close>, the error is logged and nothing else changes.
\<close>

theorem key_fetch_outcomes:
  "(getIdToken u = Inl e \<longrightarrow> getOrCreateAPIKey u keyResult signupResult p = console_error e p)
   \<and> (getIdToken u = Inr idToken \<longrightarrow>
        (keyResult = Inr r \<and> body r = Some (JsonObject data) \<and> ok r \<and> truthy_str (masked_key data) \<longrightarrow>
           getOrCreateAPIKey u keyResult signupResult p
             = updateDashboardUI data (fetch (GetKey idToken) p))
      \<and> (keyResult = Inr r \<and> body r = Some v \<and> status r = 404 \<longrightarrow>
           getOrCreateAPIKey u keyResult signupResult p
             = catch console_error
                 (createNewKey idToken (email u) signupResult (fetch (GetKey idToken) p))
           \<and> requests (getOrCreateAPIKey u keyResult signupResult p)
               = requests p @ [GetKey idToken, Signup idToken (email u) ''free''])
      \<and> (keyResult = Inr r \<and> status r \<noteq> 404
            \<and> (body r = Some (JsonObject data) \<and> \<not> (ok r \<and> truthy_str (masked_key data))
                \<or> body r = Some JsonNull \<and> \<not> ok r) \<longrightarrow>
           getOrCreateAPIKey u keyResult signupResult p = fetch (GetKey idToken) p)
      \<and> (keyResult = Inl e \<longrightarrow>
           getOrCreateAPIKey u keyResult signupResult p = console_error e (fetch (GetKey idToken) p))
      \<and> (keyResult = Inr r \<and> body r = None \<longrightarrow>
           getOrCreateAPIKey u keyResult signupResult p
             = console_error SyntaxError (fetch (GetKey idToken) p))
      \<and> (keyResult = Inr r \<and> body r = Some JsonNull \<and> ok r \<longrightarrow>
           getOrCreateAPIKey u keyResult signupResult p
             = console_error TypeError (fetch (GetKey idToken) p)))"
proof -
  have tok_fail: "getIdToken u = Inl e \<longrightarrow> getOrCreateAPIKey u keyResult signupResult p = console_error e p"
    by (simp add: getOrCreateAPIKey_def getOrCreateAPIKey_try_def catch_def)
  have nf: "status r = 404 \<Longrightarrow> \<not> ok r"
    by (simp add: ok_def)
  have masked: "getIdToken u = Inr idToken \<Longrightarrow> keyResult = Inr r \<Longrightarrow> body r = Some (JsonObject data)
      \<Longrightarrow> ok r \<Longrightarrow> truthy_str (masked_key data)
      \<Longrightarrow> getOrCreateAPIKey u keyResult signupResult p
             = updateDashboardUI data (fetch (GetKey idToken) p)"
    by (simp add: getOrCreateAPIKey_def getOrCreateAPIKey_try_def catch_def json_def Let_def)
  have create: "getIdToken u = Inr idToken \<Longrightarrow> keyResult = Inr r \<Longrightarrow> body r = Some v
      \<Longrightarrow> status r = 404
      \<Longrightarrow> getOrCreateAPIKey u keyResult signupResult p
             = catch console_error
                 (createNewKey idToken (email u) signupResult (fetch (GetKey idToken) p))"
    using nf
    by (cases v) (simp_all add: getOrCreateAPIKey_def getOrCreateAPIKey_try_def json_def Let_def)
  have create_req: "getIdToken u = Inr idToken \<Longrightarrow> keyResult = Inr r \<Longrightarrow> body r = Some v
      \<Longrightarrow> status r = 404
      \<Longrightarrow> requests (getOrCreateAPIKey u keyResult signupResult p)
               = requests p @ [GetKey idToken, Signup idToken (email u) ''free'']"
  proof -
    assume a: "getIdToken u = Inr idToken" "keyResult = Inr r" "body r = Some v" "status r = 404"
    show "requests (getOrCreateAPIKey u keyResult signupResult p)
               = requests p @ [GetKey idToken, Signup idToken (email u) ''free'']"
      unfolding create [OF a]
      by (simp add: catch_console_requests createNewKey_requests fetch_requests)
  qed
  have other: "getIdToken u = Inr idToken \<Longrightarrow> keyResult = Inr r \<Longrightarrow> status r \<noteq> 404
      \<Longrightarrow> (body r = Some (JsonObject data) \<and> \<not> (ok r \<and> truthy_str (masked_key data))
                \<or> body r = Some JsonNull \<and> \<not> ok r)
      \<Longrightarrow> getOrCreateAPIKey u keyResult signupResult p = fetch (GetKey idToken) p"
    by (elim disjE conjE)
       (auto simp add: getOrCreateAPIKey_def getOrCreateAPIKey_try_def catch_def json_def Let_def)
  have rejected: "getIdToken u = Inr idToken \<Longrightarrow> keyResult = Inl e
      \<Longrightarrow> getOrCreateAPIKey u keyResult signupResult p = console_error e (fetch (GetKey idToken) p)"
    by (simp add: getOrCreateAPIKey_def getOrCreateAPIKey_try_def catch_def Let_def)
  have not_json: "getIdToken u = Inr idToken \<Longrightarrow> keyResult = Inr r \<Longrightarrow> body r = None
      \<Longrightarrow> getOrCreateAPIKey u keyResult signupResult p
             = console_error SyntaxError (fetch (GetKey idToken) p)"
    by (simp add: getOrCreateAPIKey_def getOrCreateAPIKey_try_def catch_def json_def Let_def)
  have null: "getIdToken u = Inr idToken \<Longrightarrow> keyResult = Inr r \<Longrightarrow> body r = Some JsonNull \<Longrightarrow> ok r
      \<Longrightarrow> getOrCreateAPIKey u keyResult signupResult p
             = console_error TypeError (fetch (GetKey idToken) p)"
    by (simp add: getOrCreateAPIKey_def getOrCreateAPIKey_try_def catch_def json_def Let_def)
  show ?thesis
    using tok_fail masked create create_req other rejected not_json null by blast
qed

theorem key_fetch_outcomes_witness:
  "apiKeyDisplay_value (getOrCreateAPIKey sample_user (Inr with_masked_key) (Inr with_key) sample_page)
     = ''sk_live_...''
   \<and> requests (getOrCreateAPIKey sample_user (Inr with_masked_key) (Inr with_key) sample_page)
     = [GetKey ''tok'']
   \<and> requests (getOrCreateAPIKey sample_user (Inr not_found) (Inr with_key) sample_page)
     = [GetKey ''tok'', Signup ''tok'' ''a@b.c'' ''free'']
   \<and> getOrCreateAPIKey sample_user (Inr server_error) (Inr with_key) sample_page
     = fetch (GetKey ''tok'') sample_page
   \<and> console (getOrCreateAPIKey sample_user (Inl (Rejected ''offline'')) (Inr with_key) sample_page)
     = [Rejected ''offline'']
   \<and> getOrCreateAPIKey sample_user (Inr not_found_html) (Inr with_key) sample_page
     = console_error SyntaxError (fetch (GetKey ''tok'') sample_page)
   \<and> getOrCreateAPIKey (sample_user\<lparr>getIdToken := Inl (Rejected ''expired'')\<rparr>) (Inr with_masked_key)
       (Inr with_key) sample_page
     = console_error (Rejected ''expired'') sample_page"
proof -
  have a: "apiKeyDisplay_value (getOrCreateAPIKey sample_user (Inr with_masked_key) (Inr with_key) sample_page)
     = ''sk_live_...''
   \<and> requests (getOrCreateAPIKey sample_user (Inr with_masked_key) (Inr with_key) sample_page)
     = [GetKey ''tok'']"
    using key_fetch_outcomes [where u = sample_user and idToken = "''tok''"
        and keyResult = "Inr with_masked_key" and r = with_masked_key
        and data = "no_fields\<lparr>masked_key := Some ''sk_live_...'', plan := Some ''pro'',
                                 requests_this_month := Some 10\<rparr>"
        and signupResult = "Inr with_key" and p = sample_page]
    by (simp add: sample_eval responses_eval bodies_eval truthy_str_def updateDashboardUI_display
        updateDashboardUI_keeps fetch_requests to_dom_string_def)
  have b: "requests (getOrCreateAPIKey sample_user (Inr not_found) (Inr with_key) sample_page)
     = [GetKey ''tok'', Signup ''tok'' ''a@b.c'' ''free'']"
    using key_fetch_outcomes [where u = sample_user and idToken = "''tok''"
        and keyResult = "Inr not_found" and r = not_found
        and v = "JsonObject (no_fields\<lparr>detail := Some ''No key''\<rparr>)"
        and signupResult = "Inr with_key" and p = sample_page]
    by (simp add: sample_eval not_found_eval bodies_eval catch_console_requests
        createNewKey_requests fetch_requests)
  have c: "getOrCreateAPIKey sample_user (Inr server_error) (Inr with_key) sample_page
     = fetch (GetKey ''tok'') sample_page"
    using key_fetch_outcomes [where u = sample_user and idToken = "''tok''"
        and keyResult = "Inr server_error" and r = server_error
        and data = "no_fields\<lparr>detail := Some ''Oops''\<rparr>"
        and signupResult = "Inr with_key" and p = sample_page]
    by (simp add: sample_eval responses_eval bodies_eval)
  have d: "console (getOrCreateAPIKey sample_user (Inl (Rejected ''offline'')) (Inr with_key) sample_page)
     = [Rejected ''offline'']"
    using key_fetch_outcomes [where u = sample_user and idToken = "''tok''"
        and keyResult = "Inl (Rejected ''offline'')" and e = "Rejected ''offline''"
        and signupResult = "Inr with_key" and p = sample_page]
    by (simp add: sample_eval console_error_def fetch_keeps)
  have e: "getOrCreateAPIKey sample_user (Inr not_found_html) (Inr with_key) sample_page
     = console_error SyntaxError (fetch (GetKey ''tok'') sample_page)"
    using key_fetch_outcomes [where u = sample_user and idToken = "''tok''"
        and keyResult = "Inr not_found_html" and r = not_found_html
        and signupResult = "Inr with_key" and p = sample_page]
    by (simp add: sample_eval bodies_eval)
  have f: "getOrCreateAPIKey (sample_user\<lparr>getIdToken := Inl (Rejected ''expired'')\<rparr>) (Inr with_masked_key)
       (Inr with_key) sample_page
     = console_error (Rejected ''expired'') sample_page"
    using key_fetch_outcomes [where u = "sample_user\<lparr>getIdToken := Inl (Rejected ''expired'')\<rparr>"
        and e = "Rejected ''expired''"
        and keyResult = "Inr with_masked_key"
        and signupResult = "Inr with_key" and p = sample_page]
    by simp
  show ?thesis using a b c d e f by simp
qed

section \<open>Submitting an extraction\<close>

text \<open>\<open>includes_at\<close> finds the needle as a contiguous run, as \<open>String.prototype.includes\<close> does.\<close>

lemma includes_at_iff: "includes_at s needle \<longleftrightarrow> (\<exists>a b. s = a @ needle @ b)"
proof (induction s)
  case Nil
  then show ?case by auto
next
  case (Cons x xs)
  show ?case
  proof
    assume "includes_at (x # xs) needle"
    then consider "prefix needle (x # xs)" | "includes_at xs needle" by auto
    then show "\<exists>a b. x # xs = a @ needle @ b"
    proof cases
      case 1
      then obtain b where "x # xs = needle @ b" by (auto simp: prefix_def)
      then have "x # xs = [] @ needle @ b" by simp
      then show ?thesis by blast
    next
      case 2
      then obtain a b where "xs = a @ needle @ b" using Cons.IH by blast
      then have "x # xs = (x # a) @ needle @ b" by simp
      then show ?thesis by blast
    qed
  next
    assume "\<exists>a b. x # xs = a @ needle @ b"
    then obtain a b where ab: "x # xs = a @ needle @ b" by blast
    show "includes_at (x # xs) needle"
    proof (cases a)
      case Nil
      with ab have "prefix needle (x # xs)" by (simp add: prefix_def)
      then show ?thesis by simp
    next
      case (Cons y ys)
      with ab have "xs = ys @ needle @ b" by simp
      then have "includes_at xs needle" using Cons.IH by blast
      then show ?thesis by simp
    qed
  qed
qed

text \<open>
  C2, as the spec states it: with a file selected, the network call of an extraction is
  made only if the credential is non-empty, is not the masked placeholder, and a document
  type is selected. It fails on the document type: \<open>triggerExtraction\<close> reads the value
  of the document-type input and never tests it. With the key \<open>sk\<close> typed and the
  document type empty, the request goes out.
\<close>

theorem extraction_docType_counterexample:
  "currentSelectedFile page_without_docType = Some png
   \<and> docTypeInput_value page_without_docType = []
   \<and> requests page_without_docType = []
   \<and> requests (triggerExtraction (Some ''data:image/png;base64,AAAA'') page_without_docType)
       = [Extract [115, 107] (Some ''AAAA'') ''image/png'' []]"
  by (simp add: page_without_docType_def triggerExtraction_def performApiCall_def Let_def
      fetch_requests sample_eval trim_def is_white_def MASK_def png_def at_index_def)

text \<open>
  C2, amended. With a file selected, the network call of an extraction is made only if
  the credential, trimmed, is non-empty and does not contain the mask of four bullets;
  otherwise the submission ends with an error toast and the focus on the credential
  field, no request is issued and the file selection is unchanged. With such a
  credential, once the file is read, the request is issued with the document type as the
  input holds it, whatever it is.
\<close>

theorem extraction_guard:
  assumes "currentSelectedFile p = Some f"
  shows "(trim (testApiKeyInput_value p) = [] \<or> includes_at (trim (testApiKeyInput_value p)) MASK \<longrightarrow>
            triggerExtraction loaded p
              = (showToast (Lit ''Please paste your REAL API Key.'') ''error'' p)
                  \<lparr>activeElement := Some ''testApiKeyInput''\<rparr>
          \<and> toasts (triggerExtraction loaded p)
              = toasts p @ [\<lparr>toast_message = Lit ''Please paste your REAL API Key.'',
                             toast_border = ''border-red-500'', toast_text = ''text-red-800''\<rparr>]
          \<and> activeElement (triggerExtraction loaded p) = Some ''testApiKeyInput''
          \<and> requests (triggerExtraction loaded p) = requests p
          \<and> currentSelectedFile (triggerExtraction loaded p) = Some f)
    \<and> (requests (triggerExtraction loaded p) \<noteq> requests p \<longrightarrow>
            trim (testApiKeyInput_value p) \<noteq> []
          \<and> \<not> includes_at (trim (testApiKeyInput_value p)) MASK)
    \<and> (trim (testApiKeyInput_value p) \<noteq> [] \<and> \<not> includes_at (trim (testApiKeyInput_value p)) MASK
          \<and> loaded = Some result \<longrightarrow>
            requests (triggerExtraction loaded p)
              = requests p @ [Extract (trim (testApiKeyInput_value p))
                                (at_index (split_on CHR '','' result) 1) (file_type f)
                                (docTypeInput_value p)]
          \<and> currentSelectedFile (triggerExtraction loaded p) = Some f)
    \<and> (includes_at (trim (testApiKeyInput_value p)) MASK
          \<longleftrightarrow> (\<exists>a b. trim (testApiKeyInput_value p) = a @ [0x2022, 0x2022, 0x2022, 0x2022] @ b))"
proof -
  let ?k = "trim (testApiKeyInput_value p)"
  let ?rejected = "(showToast (Lit ''Please paste your REAL API Key.'') ''error'' p)
                     \<lparr>activeElement := Some ''testApiKeyInput''\<rparr>"
  have bad: "triggerExtraction loaded p = ?rejected" if "?k = [] \<or> includes_at ?k MASK"
    using assms that by (simp add: triggerExtraction_def Let_def)
  have rejected_toasts: "toasts ?rejected
        = toasts p @ [\<lparr>toast_message = Lit ''Please paste your REAL API Key.'',
                       toast_border = ''border-red-500'', toast_text = ''text-red-800''\<rparr>]"
    by (simp add: showToast_def)
  have rejected_focus: "activeElement ?rejected = Some ''testApiKeyInput''"
    by simp
  have rejected_requests: "requests ?rejected = requests p"
    by (simp add: showToast_def)
  have rejected_file: "currentSelectedFile ?rejected = Some f"
    using assms by (simp add: showToast_def)
  have c1: "?k = [] \<or> includes_at ?k MASK \<longrightarrow>
            triggerExtraction loaded p = ?rejected
          \<and> toasts (triggerExtraction loaded p)
              = toasts p @ [\<lparr>toast_message = Lit ''Please paste your REAL API Key.'',
                             toast_border = ''border-red-500'', toast_text = ''text-red-800''\<rparr>]
          \<and> activeElement (triggerExtraction loaded p) = Some ''testApiKeyInput''
          \<and> requests (triggerExtraction loaded p) = requests p
          \<and> currentSelectedFile (triggerExtraction loaded p) = Some f"
  proof
    assume h: "?k = [] \<or> includes_at ?k MASK"
    show "triggerExtraction loaded p = ?rejected
          \<and> toasts (triggerExtraction loaded p)
              = toasts p @ [\<lparr>toast_message = Lit ''Please paste your REAL API Key.'',
                             toast_border = ''border-red-500'', toast_text = ''text-red-800''\<rparr>]
          \<and> activeElement (triggerExtraction loaded p) = Some ''testApiKeyInput''
          \<and> requests (triggerExtraction loaded p) = requests p
          \<and> currentSelectedFile (triggerExtraction loaded p) = Some f"
      unfolding bad [OF h]
      using rejected_toasts rejected_focus rejected_requests rejected_file
      by (intro conjI) (rule refl, assumption+)
  qed
  have c2: "requests (triggerExtraction loaded p) \<noteq> requests p \<longrightarrow>
            ?k \<noteq> [] \<and> \<not> includes_at ?k MASK"
  proof
    assume issued: "requests (triggerExtraction loaded p) \<noteq> requests p"
    show "?k \<noteq> [] \<and> \<not> includes_at ?k MASK"
    proof (rule ccontr)
      assume "\<not> (?k \<noteq> [] \<and> \<not> includes_at ?k MASK)"
      then have h: "?k = [] \<or> includes_at ?k MASK" by blast
      have "requests (triggerExtraction loaded p) = requests p"
        unfolding bad [OF h] by (rule rejected_requests)
      with issued show False by blast
    qed
  qed
  have c3: "?k \<noteq> [] \<and> \<not> includes_at ?k MASK \<and> loaded = Some result \<longrightarrow>
            requests (triggerExtraction loaded p)
              = requests p @ [Extract ?k (at_index (split_on CHR '','' result) 1) (file_type f)
                                (docTypeInput_value p)]
          \<and> currentSelectedFile (triggerExtraction loaded p) = Some f"
  proof
    assume h: "?k \<noteq> [] \<and> \<not> includes_at ?k MASK \<and> loaded = Some result"
    have good: "triggerExtraction loaded p
        = performApiCall (at_index (split_on CHR '','' result) 1) (file_type f)
            (docTypeInput_value p) ?k p"
      using assms h by (simp add: triggerExtraction_def Let_def)
    show "requests (triggerExtraction loaded p)
              = requests p @ [Extract ?k (at_index (split_on CHR '','' result) 1) (file_type f)
                                (docTypeInput_value p)]
          \<and> currentSelectedFile (triggerExtraction loaded p) = Some f"
      unfolding good using assms by (simp add: performApiCall_def fetch_def)
  qed
  have c4: "includes_at ?k MASK \<longleftrightarrow> (\<exists>a b. ?k = a @ [0x2022, 0x2022, 0x2022, 0x2022] @ b)"
    unfolding includes_at_iff MASK_def by (rule refl)
  show ?thesis
    by (rule conjI [OF c1 conjI [OF c2 conjI [OF c3 c4]]])
qed


theorem extraction_guard_witness:
  "requests (triggerExtraction (Some ''data:image/png;base64,AAAA'')
       (sample_page\<lparr>currentSelectedFile := Some png,
                     testApiKeyInput_value := [32, 115, 107, 8226, 8226, 8226, 8226, 49]\<rparr>)) = []
   \<and> activeElement (triggerExtraction (Some ''data:image/png;base64,AAAA'')
       (sample_page\<lparr>currentSelectedFile := Some png,
                     testApiKeyInput_value := [32, 115, 107, 8226, 8226, 8226, 8226, 49]\<rparr>))
       = Some ''testApiKeyInput''
   \<and> currentSelectedFile (triggerExtraction (Some ''data:image/png;base64,AAAA'')
       (sample_page\<lparr>currentSelectedFile := Some png,
                     testApiKeyInput_value := [32, 115, 107, 8226, 8226, 8226, 8226, 49]\<rparr>))
       = Some png
   \<and> requests (triggerExtraction (Some ''data:image/png;base64,AAAA'')
       (sample_page\<lparr>currentSelectedFile := Some png, testApiKeyInput_value := [32, 160]\<rparr>)) = []
   \<and> requests (triggerExtraction (Some ''data:image/png;base64,AAAA'')
       (sample_page\<lparr>currentSelectedFile := Some png, testApiKeyInput_value := [32, 115, 107, 32]\<rparr>))
       = [Extract [115, 107] (Some ''AAAA'') ''image/png'' ''receipt'']"
proof -
  have masked: "requests (triggerExtraction (Some ''data:image/png;base64,AAAA'')
       (sample_page\<lparr>currentSelectedFile := Some png,
                     testApiKeyInput_value := [32, 115, 107, 8226, 8226, 8226, 8226, 49]\<rparr>)) = []
   \<and> activeElement (triggerExtraction (Some ''data:image/png;base64,AAAA'')
       (sample_page\<lparr>currentSelectedFile := Some png,
                     testApiKeyInput_value := [32, 115, 107, 8226, 8226, 8226, 8226, 49]\<rparr>))
       = Some ''testApiKeyInput''
   \<and> currentSelectedFile (triggerExtraction (Some ''data:image/png;base64,AAAA'')
       (sample_page\<lparr>currentSelectedFile := Some png,
                     testApiKeyInput_value := [32, 115, 107, 8226, 8226, 8226, 8226, 49]\<rparr>))
       = Some png"
    using extraction_guard
      [where p = "sample_page\<lparr>currentSelectedFile := Some png,
                     testApiKeyInput_value := [32, 115, 107, 8226, 8226, 8226, 8226, 49]\<rparr>"
         and f = png and loaded = "Some ''data:image/png;base64,AAAA''"
         and result = "''data:image/png;base64,AAAA''"]
    by (simp add: trim_def is_white_def MASK_def sample_eval showToast_def)
  have blank: "requests (triggerExtraction (Some ''data:image/png;base64,AAAA'')
       (sample_page\<lparr>currentSelectedFile := Some png, testApiKeyInput_value := [32, 160]\<rparr>)) = []"
    using extraction_guard
      [where p = "sample_page\<lparr>currentSelectedFile := Some png, testApiKeyInput_value := [32, 160]\<rparr>"
         and f = png and loaded = "Some ''data:image/png;base64,AAAA''"
         and result = "''data:image/png;base64,AAAA''"]
    by (simp add: trim_def is_white_def MASK_def sample_eval showToast_def)
  have good: "requests (triggerExtraction (Some ''data:image/png;base64,AAAA'')
       (sample_page\<lparr>currentSelectedFile := Some png, testApiKeyInput_value := [32, 115, 107, 32]\<rparr>))
       = [Extract [115, 107] (Some ''AAAA'') ''image/png'' ''receipt'']"
    using extraction_guard
      [where p = "sample_page\<lparr>currentSelectedFile := Some png,
                     testApiKeyInput_value := [32, 115, 107, 32]\<rparr>"
         and f = png and loaded = "Some ''data:image/png;base64,AAAA''"
         and result = "''data:image/png;base64,AAAA''"]
    by (simp add: trim_def is_white_def MASK_def sample_eval at_index_def png_def sample_page_def)
  show ?thesis
    by (rule conjI [OF masked [THEN conjunct1] conjI [OF masked [THEN conjunct2, THEN conjunct1]
          conjI [OF masked [THEN conjunct2, THEN conjunct2] conjI [OF blank good]]]])
qed

end
